(* ===== verification/Prelude.thy ===== *)
theory Prelude
  imports Main "HOL-Library.Word"
begin

text \<open>
  Shared vocabulary of the development: the identifier type, the named collections
  of equations that the component proofs share, and generic lemmas on association
  lists and on scans over lists that several components use.
\<close>

section \<open>Types shared by the components\<close>

text \<open>An identifier is Python's \<open>uuid.UUID\<close>: a 128-bit value.\<close>

type_synonym uuid = "128 word"

text \<open>Dictionary keys of documents and JSON objects are strings.\<close>

type_synonym key = string

section \<open>Positional digits\<close>

text \<open>
  The \<open>k\<close> base-\<open>b\<close> digits of \<open>n\<close>, most significant first: the hex text of an
  identifier is \<open>'%032x' % int\<close>, its 32 base-16 digits.
\<close>

fun base_digits :: "nat \<Rightarrow> nat \<Rightarrow> nat \<Rightarrow> nat list" where
  "base_digits b 0 n = []"
| "base_digits b (Suc k) n = base_digits b k (n div b) @ [n mod b]"

section \<open>Named collections\<close>

named_theorems store_simps "characteristic equations of the collection operations"
named_theorems wf_simps "how the well-formedness predicates distribute over list constructors"

section \<open>Digit lemmas\<close>

text \<open>
  Reading the digits back by Horner's rule gives \<open>n mod b ^ k\<close>.
\<close>

lemma length_base_digits [simp]: "length (base_digits b k n) = k"
  by (induction k arbitrary: n) auto

lemma base_digits_less: "0 < b \<Longrightarrow> d \<in> set (base_digits b k n) \<Longrightarrow> d < b"
  by (induction k arbitrary: n) auto

lemma foldl_base_digits:
  "foldl (\<lambda>a d. b * a + d) acc (base_digits b k n) = acc * b ^ k + n mod b ^ k"
proof (induction k arbitrary: n)
  case 0
  then show ?case by simp
next
  case (Suc k)
  have "n mod b ^ Suc k = b * (n div b mod b ^ k) + n mod b"
    by (simp add: mod_mult2_eq)
  with Suc.IH [of "n div b"] show ?case by (simp add: algebra_simps)
qed

section \<open>Generic lemmas on association lists\<close>

lemma map_of_filter_keys:
  "map_of (filter (\<lambda>(k, v). k \<noteq> x) kvs) = (map_of kvs)(x := None)"
  by (induction kvs) (auto simp: fun_eq_iff)

lemma map_filter_append [simp]:
  "List.map_filter f (xs @ ys) = List.map_filter f xs @ List.map_filter f ys"
  by (simp add: List.map_filter_def)

lemma those_None: "None \<in> set xs \<Longrightarrow> those xs = None"
  by (induction xs) (auto split: option.splits)

lemma in_set_enumerate:
  assumes "x \<in> set xs"
  shows "\<exists>i. (i, x) \<in> set (enumerate n xs)"
proof -
  from assms obtain i where "i < length xs" and "xs ! i = x" by (auto simp: in_set_conv_nth)
  then have "(n + i, x) \<in> set (enumerate n xs)" by (metis length_enumerate nth_enumerate_eq nth_mem)
  then show ?thesis ..
qed

end
