(* ===== verification/Bson.thy ===== *)
theory Bson
  imports Prelude
begin

text \<open>
  The values the program stores and reads back: BSON values as PyMongo hands them to
  Python, documents as Python dictionaries in field order, and the Python operations
  the handlers apply to them (\<open>dict.get\<close> with a default, truthiness of \<open>not\<close>, and
  the \<open>$set\<close> field update of the storage layer).
\<close>

section \<open>Values and documents\<close>

text \<open>
  The values that occur in a stored todo document, plus the other scalar values a
  schema-less collection may hold. \<open>BUuid\<close> is a UUID stored as BSON binary subtype 4
  (\<open>uuidRepresentation="standard"\<close>, \<^verbatim>\<open>main.py\<close> line 13), read back as \<open>uuid.UUID\<close>.
\<close>

datatype bson = BUuid uuid | BStr string | BBool bool | BInt int | BNull

text \<open>A document is a dictionary; BSON keeps the order of its fields.\<close>

type_synonym document = "(key \<times> bson) list"

section \<open>Python operations on dictionaries and values\<close>

text \<open>\<open>d.get(k, default)\<close>.\<close>

definition dict_get :: "document \<Rightarrow> key \<Rightarrow> bson \<Rightarrow> bson" where
  "dict_get d k dflt = (case map_of d k of None \<Rightarrow> dflt | Some v \<Rightarrow> v)"

text \<open>
  Truthiness, as \<open>not v\<close> reads it: \<open>False\<close>, empty strings, zero and \<open>None\<close>
  are false; a \<open>UUID\<close> object defines neither \<open>__bool__\<close> nor \<open>__len__\<close> and is
  true.
\<close>

fun py_truthy :: "bson \<Rightarrow> bool" where
  "py_truthy (BBool b) = b"
| "py_truthy (BStr s) = (s \<noteq> [])"
| "py_truthy (BInt i) = (i \<noteq> 0)"
| "py_truthy BNull = False"
| "py_truthy (BUuid u) = True"

text \<open>A dictionary is false exactly when it is empty; \<open>None\<close> is false.\<close>

definition py_falsy_doc :: "document option \<Rightarrow> bool" where
  "py_falsy_doc r = (case r of None \<Rightarrow> True | Some d \<Rightarrow> d = [])"

text \<open>
  The field update of \<open>{"$set": {k: v}}\<close>, and Python's \<open>d[k] = v\<close> on any
  dictionary: an existing key keeps its position and takes the new value; a missing key
  is appended at the end.
\<close>

fun dict_set :: "key \<Rightarrow> 'v \<Rightarrow> (key \<times> 'v) list \<Rightarrow> (key \<times> 'v) list" where
  "dict_set k v [] = [(k, v)]"
| "dict_set k v ((k', v') # d) =
     (if k' = k then (k, v) # d else (k', v') # dict_set k v d)"

section \<open>Lemmas\<close>

lemma map_of_dict_set [simp]: "map_of (dict_set k v d) = (map_of d)(k \<mapsto> v)"
  by (induction d) (auto simp: fun_eq_iff)

lemma keys_dict_set:
  "map fst (dict_set k v d) = (if k \<in> set (map fst d) then map fst d else map fst d @ [k])"
  by (induction d) (force+)

lemma distinct_keys_dict_set [simp]:
  "distinct (map fst (dict_set k v d)) = distinct (map fst d)"
  by (induction d) (auto simp: keys_dict_set)

lemma dict_get_Some [simp]: "map_of d k = Some v \<Longrightarrow> dict_get d k dflt = v"
  by (simp add: dict_get_def)

lemma dict_get_None [simp]: "map_of d k = None \<Longrightarrow> dict_get d k dflt = dflt"
  by (simp add: dict_get_def)

end
