(* ===== verification/Uuid.thy ===== *)
theory Uuid
  imports Prelude
begin

unbundle bit_operations_syntax

text \<open>
  Identifiers: Python's \<open>uuid.uuid4()\<close> (random bits with the version and variant
  fields forced), the canonical text form \<open>str(UUID)\<close> used on the wire, and the
  parser that turns a path segment or a JSON string back into a \<open>UUID\<close>. These are
  library code that \<^verbatim>\<open>main.py\<close> calls (\<open>Field(default_factory=uuid4)\<close>, the
  \<open>todo_id: UUID\<close> path parameters); they are modelled from their documented
  behaviour.
\<close>

section \<open>Generation\<close>

text \<open>
  \<open>uuid4()\<close> is \<open>UUID(bytes=os.urandom(16), version=4)\<close>; the constructor clears and
  sets the variant bits (\<open>int &= ~(0xc000 << 48); int |= 0x8000 << 48\<close>) and the version
  bits (\<open>int &= ~(0xf000 << 64); int |= 4 << 76\<close>). The random draw is the argument.
\<close>

definition uuid4 :: "128 word \<Rightarrow> uuid" where
  "uuid4 r =
     (((r AND NOT (push_bit 48 0xc000)) OR push_bit 48 0x8000)
        AND NOT (push_bit 64 0xf000)) OR push_bit 76 4"

text \<open>\<open>UUID.version\<close>: \<open>(self.int >> 76) & 0xf\<close>; \<open>UUID.variant\<close> reads bits 62 and 63.\<close>

definition uuid_version :: "uuid \<Rightarrow> nat" where
  "uuid_version u = unat (drop_bit 76 u AND 0xf)"

definition uuid_variant_bits :: "uuid \<Rightarrow> nat" where
  "uuid_variant_bits u = unat (drop_bit 62 u AND 3)"

section \<open>Text form\<close>

definition hex_chars :: string where
  "hex_chars = ''0123456789abcdef''"

text \<open>\<open>UUID.hex\<close> is \<open>'%032x' % self.int\<close>.\<close>

definition uuid_hex :: "uuid \<Rightarrow> string" where
  "uuid_hex u = map (\<lambda>d. hex_chars ! d) (base_digits 16 32 (unat u))"

text \<open>\<open>UUID.__str__\<close> cuts the hex form into groups of 8, 4, 4, 4 and 12 digits.\<close>

definition hyphenate :: "string \<Rightarrow> string" where
  "hyphenate h =
     take 8 h @ ''-'' @ take 4 (drop 8 h) @ ''-'' @ take 4 (drop 12 h) @ ''-'' @
     take 4 (drop 16 h) @ ''-'' @ drop 20 h"

definition uuid_str :: "uuid \<Rightarrow> string" where
  "uuid_str u = hyphenate (uuid_hex u)"

section \<open>Parsing\<close>

text \<open>A hex digit, upper or lower case.\<close>

definition hex_val :: "char \<Rightarrow> nat option" where
  "hex_val c =
     (let n = (of_char c :: nat) in
      if 48 \<le> n \<and> n \<le> 57 then Some (n - 48)
      else if 97 \<le> n \<and> n \<le> 102 then Some (n - 87)
      else if 65 \<le> n \<and> n \<le> 70 then Some (n - 55)
      else None)"

text \<open>\<open>int(h, 16)\<close> on a string of hex digits, by Horner's rule.\<close>

fun hex_digits_val :: "nat \<Rightarrow> string \<Rightarrow> nat option" where
  "hex_digits_val acc [] = Some acc"
| "hex_digits_val acc (c # cs) =
     (case hex_val c of None \<Rightarrow> None | Some d \<Rightarrow> hex_digits_val (16 * acc + d) cs)"

text \<open>The hyphenated 8-4-4-4-12 form with its hyphens removed.\<close>

definition strip_hyphenated :: "string \<Rightarrow> string option" where
  "strip_hyphenated s =
     (if length s = 36 \<and> s ! 8 = CHR ''-'' \<and> s ! 13 = CHR ''-'' \<and> s ! 18 = CHR ''-''
         \<and> s ! 23 = CHR ''-''
      then Some (take 8 s @ take 4 (drop 9 s) @ take 4 (drop 14 s) @ take 4 (drop 19 s)
                 @ drop 24 s)
      else None)"

text \<open>
  The string forms a \<open>UUID\<close> field accepts: 32 hex digits, the hyphenated form, the
  hyphenated form in braces, and the \<open>urn:uuid:\<close> form. Anything else is a
  validation error (\<open>None\<close>).
\<close>

definition uuid_parse :: "string \<Rightarrow> uuid option" where
  "uuid_parse s =
     (let h = (if length s = 32 then Some s
               else if length s = 36 then strip_hyphenated s
               else if length s = 38 \<and> hd s = CHR ''{'' \<and> last s = CHR ''}''
                 then strip_hyphenated (butlast (tl s))
               else if length s = 45 \<and> take 9 s = ''urn:uuid:''
                 then strip_hyphenated (drop 9 s)
               else None)
      in case h of None \<Rightarrow> None | Some hs \<Rightarrow> map_option word_of_nat (hex_digits_val 0 hs))"

section \<open>Lemmas: digits, text form, version bits\<close>

lemma hex_val_hex_chars_all: "list_all (\<lambda>d. hex_val (hex_chars ! d) = Some d) [0..<16]"
  by code_simp
lemma hex_val_hex_chars: "d < 16 \<Longrightarrow> hex_val (hex_chars ! d) = Some d"
  using hex_val_hex_chars_all by (simp add: list_all_iff)
lemma hex_digits_val_hex_chars:
  "\<forall>d \<in> set ds. d < 16 \<Longrightarrow>
   hex_digits_val acc (map (\<lambda>d. hex_chars ! d) ds) = Some (foldl (\<lambda>a d. 16 * a + d) acc ds)"
  by (induction ds arbitrary: acc) (auto simp: hex_val_hex_chars)

lemma take_drop_split: "take n (drop m h) @ drop (n + m) h = drop m h"
  by (metis append_take_drop_id drop_drop)
lemma take_drop_groups:
  "take 8 h @ take 4 (drop 8 h) @ take 4 (drop 12 h) @ take 4 (drop 16 h) @ drop 20 h = h"
  using take_drop_split [of 4 16 h] take_drop_split [of 4 12 h] take_drop_split [of 4 8 h]
    take_drop_split [of 8 0 h]
  by simp
lemma strip_hyphenated_hyphenate:
  assumes "length h = 32"
  shows "strip_hyphenated (hyphenate h) = Some h"
  using assms take_drop_groups [of h]
  by (simp add: strip_hyphenated_def hyphenate_def nth_append)
lemma unat_lt_16_32: "unat (u :: uuid) < 16 ^ 32"
  using unsigned_less [of u] by simp

text \<open>Parsing the text form of an identifier gives the identifier back.\<close>

theorem uuid_parse_uuid_str: "uuid_parse (uuid_str u) = Some u"
proof -
  have len: "length (uuid_hex u) = 32" by (simp add: uuid_hex_def)
  then have "length (uuid_str u) = 36"
    by (simp add: uuid_str_def hyphenate_def min_def)
  moreover have "strip_hyphenated (uuid_str u) = Some (uuid_hex u)"
    using len by (simp add: uuid_str_def strip_hyphenated_hyphenate)
  moreover have "hex_digits_val 0 (uuid_hex u) = Some (unat u)"
    using unat_lt_16_32 [of u]
    by (simp add: uuid_hex_def hex_digits_val_hex_chars base_digits_less foldl_base_digits)
  ultimately show ?thesis by (simp add: uuid_parse_def)
qed


lemma low_field_eqI:
  fixes x y :: uuid
  assumes "\<And>n. n < k \<Longrightarrow> bit x n = bit y n"
    and "y = take_bit k y"
  shows "take_bit k x = y"
proof (rule bit_word_eqI)
  fix n
  show "bit (take_bit k x) n = bit y n"
    using assms by (metis bit_take_bit_iff)
qed

lemma uuid4_version_field: "drop_bit 76 (uuid4 r) AND 0xf = 4"
proof -
  have m: "(0xf :: uuid) = mask 4" by (simp add: mask_eq_exp_minus_1)
  have "take_bit 4 (drop_bit 76 (uuid4 r)) = 4"
  proof (rule low_field_eqI)
    fix n :: nat
    assume "n < 4"
    then have "n = 0 \<or> n = 1 \<or> n = 2 \<or> n = 3" by auto
    then show "bit (drop_bit 76 (uuid4 r)) n = bit (4 :: uuid) n"
      by (auto simp: uuid4_def bit_simps)
  qed simp
  then show ?thesis by (simp add: m take_bit_eq_mask)
qed

lemma uuid4_variant_field: "drop_bit 62 (uuid4 r) AND 3 = 2"
proof -
  have m: "(3 :: uuid) = mask 2" by (simp add: mask_eq_exp_minus_1)
  have "take_bit 2 (drop_bit 62 (uuid4 r)) = 2"
  proof (rule low_field_eqI)
    fix n :: nat
    assume "n < 2"
    then have "n = 0 \<or> n = 1" by auto
    then show "bit (drop_bit 62 (uuid4 r)) n = bit (2 :: uuid) n"
      by (auto simp: uuid4_def bit_simps)
  qed simp
  then show ?thesis by (simp add: m take_bit_eq_mask)
qed


text \<open>
  Every identifier \<open>uuid4\<close> produces, whatever its random bits, reads back version 4
  from bits 76--79 and the RFC 4122 variant \<open>10\<close> from bits 62--63.
\<close>

lemma uuid_version_uuid4: "uuid_version (uuid4 r) = 4"
  by (simp add: uuid_version_def uuid4_version_field)

lemma uuid_variant_uuid4: "uuid_variant_bits (uuid4 r) = 2"
  by (simp add: uuid_variant_bits_def uuid4_variant_field)

lemma length_uuid_str [simp]: "length (uuid_str u) = 36"
  by (simp add: uuid_str_def uuid_hex_def hyphenate_def min_def)

lemma length_hex_chars [simp]: "length hex_chars = 16"
  by (simp add: hex_chars_def)

lemma set_uuid_hex: "set (uuid_hex u) \<subseteq> set hex_chars"
  by (auto simp: uuid_hex_def dest!: base_digits_less [rotated] intro!: nth_mem)

lemma set_hyphenate: "set (hyphenate h) \<subseteq> insert CHR ''-'' (set h)"
  by (auto simp: hyphenate_def dest: in_set_takeD in_set_dropD)

lemma slash_notin_uuid_str: "CHR ''/'' \<notin> set (uuid_str u)"
proof
  assume "CHR ''/'' \<in> set (uuid_str u)"
  then have "CHR ''/'' \<in> insert CHR ''-'' (set hex_chars)"
    using set_hyphenate [of "uuid_hex u"] set_uuid_hex [of u] by (auto simp: uuid_str_def)
  then show False by (simp add: hex_chars_def)
qed

end
