(* ===== verification/Models.thy ===== *)
theory Models
  imports Bson Uuid
begin

text \<open>
  The data model of \<^verbatim>\<open>main.py\<close> (lines 29--36): the pydantic classes \<open>TodoItem\<close> and
  \<open>TodoItemCreate\<close>, the document \<open>model_dump(by_alias=True)\<close> produces for the
  collection, the lax-mode validation pydantic applies to a request body and to the
  documents a handler returns under \<open>response_model\<close>, and the JSON the responses
  are serialised to.
\<close>

section \<open>JSON values\<close>

datatype json = JNull | JBool bool | JInt int | JStr string | JArr "json list"
  | JObj "(key \<times> json) list"

text \<open>A member of a decoded JSON object; the last of duplicate keys wins, as in \<open>json.loads\<close>.\<close>

definition json_field :: "(key \<times> json) list \<Rightarrow> key \<Rightarrow> json option" where
  "json_field kvs k = map_of (rev kvs) k"

section \<open>The pydantic models\<close>

text \<open>
  \<open>class TodoItem(BaseModel)\<close>: \<open>id: UUID = Field(default_factory=uuid4, alias="_id")\<close>,
  \<open>content: str\<close>, \<open>finished: bool = False\<close>. The field \<open>id\<close> is \<open>item_id\<close> here
  (\<open>id\<close> is the identity function of HOL).
\<close>

record todo_item =
  item_id :: uuid
  content :: string
  finished :: bool

text \<open>\<open>class TodoItemCreate(BaseModel)\<close>: \<open>content: str\<close>, \<open>finished: bool = True\<close>.\<close>

record todo_item_create =
  create_content :: string
  create_finished :: bool

text \<open>
  \<open>TodoItem(content=c, finished=f)\<close>: the identifier comes from the default factory
  \<open>uuid4\<close>, whose random draw is the first argument.
\<close>

definition new_todo_item :: "128 word \<Rightarrow> string \<Rightarrow> bool \<Rightarrow> todo_item" where
  "new_todo_item r c f = \<lparr>item_id = uuid4 r, content = c, finished = f\<rparr>"

text \<open>\<open>model_dump(by_alias=True)\<close>: the fields in declaration order, \<open>id\<close> under \<open>"_id"\<close>.\<close>

definition model_dump :: "todo_item \<Rightarrow> document" where
  "model_dump t =
     [(''_id'', BUuid (item_id t)), (''content'', BStr (content t)),
      (''finished'', BBool (finished t))]"

section \<open>Lax-mode validation of single fields\<close>

definition lower_char :: "char \<Rightarrow> char" where
  "lower_char c =
     (let n = (of_char c :: nat) in if 65 \<le> n \<and> n \<le> 90 then char_of (n + 32) else c)"

text \<open>A string accepted as a \<open>bool\<close>, compared case-insensitively.\<close>

definition str_as_bool :: "string \<Rightarrow> bool option" where
  "str_as_bool s =
     (let l = map lower_char s in
      if l \<in> set [''0'', ''off'', ''f'', ''false'', ''n'', ''no''] then Some False
      else if l \<in> set [''1'', ''on'', ''t'', ''true'', ''y'', ''yes''] then Some True
      else None)"

fun json_as_bool :: "json \<Rightarrow> bool option" where
  "json_as_bool (JBool b) = Some b"
| "json_as_bool (JInt i) = (if i = 0 then Some False else if i = 1 then Some True else None)"
| "json_as_bool (JStr s) = str_as_bool s"
| "json_as_bool _ = None"

fun bson_as_bool :: "bson \<Rightarrow> bool option" where
  "bson_as_bool (BBool b) = Some b"
| "bson_as_bool (BInt i) = (if i = 0 then Some False else if i = 1 then Some True else None)"
| "bson_as_bool (BStr s) = str_as_bool s"
| "bson_as_bool _ = None"

fun bson_as_uuid :: "bson \<Rightarrow> uuid option" where
  "bson_as_uuid (BUuid u) = Some u"
| "bson_as_uuid (BStr s) = uuid_parse s"
| "bson_as_uuid _ = None"

section \<open>Validation of the models\<close>

text \<open>
  The request body of \<open>POST /todos\<close> as \<open>TodoItemCreate\<close>: a JSON object with a string
  \<open>content\<close>; \<open>finished\<close> defaults to \<open>True\<close> but, when present, must still be a
  valid boolean. Other members are ignored. \<open>None\<close> is a validation error (422).
\<close>

definition validate_create :: "json \<Rightarrow> todo_item_create option" where
  "validate_create body =
     (case body of
        JObj kvs \<Rightarrow>
          (case json_field kvs ''content'' of
             Some (JStr c) \<Rightarrow>
               (case json_field kvs ''finished'' of
                  None \<Rightarrow> Some \<lparr>create_content = c, create_finished = True\<rparr>
                | Some v \<Rightarrow> map_option (\<lambda>f. \<lparr>create_content = c, create_finished = f\<rparr>)
                              (json_as_bool v))
           | _ \<Rightarrow> None)
      | _ \<Rightarrow> None)"

text \<open>
  A stored document as \<open>TodoItem\<close> (the \<open>response_model\<close> of \<open>GET /todos\<close>): the
  identifier is read under its alias \<open>"_id"\<close> and, when missing, drawn from the default
  factory (the first argument is that draw); \<open>content\<close> is required; \<open>finished\<close>
  defaults to \<open>False\<close>. \<open>None\<close> is a response validation error.
\<close>

definition validate_item :: "128 word \<Rightarrow> document \<Rightarrow> todo_item option" where
  "validate_item r d =
     (let i = (case map_of d ''_id'' of None \<Rightarrow> Some (uuid4 r) | Some v \<Rightarrow> bson_as_uuid v);
          c = (case map_of d ''content'' of Some (BStr s) \<Rightarrow> Some s | _ \<Rightarrow> None);
          f = (case map_of d ''finished'' of None \<Rightarrow> Some False | Some v \<Rightarrow> bson_as_bool v)
      in case (i, c, f) of
           (Some i', Some c', Some f') \<Rightarrow> Some \<lparr>item_id = i', content = c', finished = f'\<rparr>
         | _ \<Rightarrow> None)"

section \<open>Serialisation\<close>

text \<open>A \<open>TodoItem\<close> in a response: by alias, with the identifier as its text form.\<close>

definition item_json :: "todo_item \<Rightarrow> json" where
  "item_json t =
     JObj [(''_id'', JStr (uuid_str (item_id t))), (''content'', JStr (content t)),
           (''finished'', JBool (finished t))]"

text \<open>A plain dictionary returned by a handler, through \<open>jsonable_encoder\<close>.\<close>

fun bson_json :: "bson \<Rightarrow> json" where
  "bson_json (BUuid u) = JStr (uuid_str u)"
| "bson_json (BStr s) = JStr s"
| "bson_json (BBool b) = JBool b"
| "bson_json (BInt i) = JInt i"
| "bson_json BNull = JNull"

definition doc_json :: "document \<Rightarrow> json" where
  "doc_json d = JObj (map (\<lambda>(k, v). (k, bson_json v)) d)"

section \<open>Stored shape of an item\<close>

text \<open>
  The documents \<open>model_dump\<close> produces, recognised by their shape: the entry
  (identifier, content, finished) such a document stands for.
\<close>

fun doc_entry :: "document \<Rightarrow> (uuid \<times> string \<times> bool) option" where
  "doc_entry [(k1, BUuid u), (k2, BStr s), (k3, BBool b)] =
     (if k1 = ''_id'' \<and> k2 = ''content'' \<and> k3 = ''finished'' then Some (u, s, b) else None)"
| "doc_entry _ = None"

definition entry_item :: "uuid \<times> string \<times> bool \<Rightarrow> todo_item" where
  "entry_item e = (case e of (u, s, b) \<Rightarrow> \<lparr>item_id = u, content = s, finished = b\<rparr>)"

section \<open>Lemmas\<close>

lemma doc_entry_model_dump [simp]:
  "doc_entry (model_dump t) = Some (item_id t, content t, finished t)"
  by (simp add: model_dump_def)

lemma doc_entry_SomeD:
  "doc_entry d = Some (u, s, b) \<Longrightarrow> d = model_dump \<lparr>item_id = u, content = s, finished = b\<rparr>"
  by (induction d rule: doc_entry.induct) (auto simp: model_dump_def split: if_splits)

lemma validate_item_model_dump [simp]: "validate_item r (model_dump t) = Some t"
  by (simp add: validate_item_def model_dump_def)

lemma validate_item_doc_entry:
  "doc_entry d = Some e \<Longrightarrow> validate_item r d = Some (entry_item e)"
  by (cases e) (auto dest: doc_entry_SomeD simp: entry_item_def)

lemma model_dump_not_Nil [simp]: "model_dump t \<noteq> []"
  by (simp add: model_dump_def)

lemma py_falsy_doc_model_dump [simp]: "py_falsy_doc (Some (model_dump t)) = False"
  by (simp add: py_falsy_doc_def model_dump_def)

lemma dict_get_finished_model_dump [simp]:
  "dict_get (model_dump t) ''finished'' dflt = BBool (finished t)"
  by (simp add: model_dump_def)

lemma item_id_entry_item: "map (item_id \<circ> entry_item) es = map fst es"
  by (induction es) (auto simp: entry_item_def split: prod.splits)

lemma entry_item_fields:
  "map ((\<lambda>t. (item_id t, content t, finished t)) \<circ> entry_item) es = es"
  by (induction es) (auto simp: entry_item_def split: prod.splits)

lemma validate_item_no_content: "map_of d ''content'' = None \<Longrightarrow> validate_item r d = None"
  by (simp add: validate_item_def split: option.splits)

end
