(* ===== verification/Collection.thy ===== *)
theory Collection
  imports Models
begin

text \<open>
  The MongoDB collection \<open>todolist.todos\<close> (\<^verbatim>\<open>main.py\<close> lines 12--15) and the five
  Motor operations the handlers await: \<open>insert_one\<close>, \<open>find().to_list(length=None)\<close>,
  \<open>find_one\<close>, \<open>delete_one\<close> and \<open>update_one\<close> with \<open>$set\<close>. The collection is the
  list of its documents in natural (insertion) order; \<open>_id\<close> is its primary key. Each
  operation is one atomic step of the server. This is library code, modelled from its
  documented behaviour; it is the only shared mutable state of the program.
\<close>

type_synonym collection = "document list"

section \<open>Keys and filters\<close>

definition doc_key :: "document \<Rightarrow> bson option" where
  "doc_key d = map_of d ''_id''"

text \<open>The filter \<open>{"_id": todo_id}\<close> for a \<open>UUID\<close> \<open>todo_id\<close>.\<close>

definition matches_id :: "uuid \<Rightarrow> document \<Rightarrow> bool" where
  "matches_id u d = (doc_key d = Some (BUuid u))"

section \<open>Operations\<close>

text \<open>
  \<open>insert_one(d)\<close>: a document whose \<open>_id\<close> is already taken is refused with
  \<open>DuplicateKeyError\<close>; otherwise it is appended. (A document without \<open>_id\<close> would get a
  fresh \<open>ObjectId\<close> from the driver; the program never inserts one, and this model
  appends it unchanged.)
\<close>

datatype store_error = DuplicateKeyError bson

definition insert_one :: "document \<Rightarrow> collection \<Rightarrow> store_error + collection" where
  "insert_one d c =
     (case doc_key d of
        None \<Rightarrow> Inr (c @ [d])
      | Some k \<Rightarrow> if Some k \<in> set (map doc_key c) then Inl (DuplicateKeyError k)
                  else Inr (c @ [d]))"

text \<open>
  \<open>find().to_list(length=None)\<close>: every document, in natural order. The driver drains
  the cursor in batches; here the listing is one atomic step.
\<close>

definition find_to_list :: "collection \<Rightarrow> document list" where
  "find_to_list c = c"

text \<open>\<open>find_one(filter)\<close>: the first matching document in natural order.\<close>

definition find_one :: "uuid \<Rightarrow> collection \<Rightarrow> document option" where
  "find_one u c = find (matches_id u) c"

text \<open>Remove the first element satisfying \<open>P\<close>, with the number removed.\<close>

fun delete_first :: "('a \<Rightarrow> bool) \<Rightarrow> 'a list \<Rightarrow> nat \<times> 'a list" where
  "delete_first P [] = (0, [])"
| "delete_first P (x # xs) =
     (if P x then (1, xs) else (case delete_first P xs of (n, ys) \<Rightarrow> (n, x # ys)))"

text \<open>\<open>delete_one(filter)\<close>, with \<open>DeleteResult.deleted_count\<close>.\<close>

definition delete_one :: "uuid \<Rightarrow> collection \<Rightarrow> nat \<times> collection" where
  "delete_one u c = delete_first (matches_id u) c"

text \<open>Change the first element satisfying \<open>P\<close>, with the number matched.\<close>

fun update_first :: "('a \<Rightarrow> bool) \<Rightarrow> ('a \<Rightarrow> 'a) \<Rightarrow> 'a list \<Rightarrow> nat \<times> 'a list" where
  "update_first P f [] = (0, [])"
| "update_first P f (x # xs) =
     (if P x then (1, f x # xs) else (case update_first P f xs of (n, ys) \<Rightarrow> (n, x # ys)))"

text \<open>\<open>update_one(filter, {"$set": {k: v}})\<close>, with \<open>UpdateResult.matched_count\<close>.\<close>

definition update_one_set :: "uuid \<Rightarrow> key \<Rightarrow> bson \<Rightarrow> collection \<Rightarrow> nat \<times> collection" where
  "update_one_set u k v c = update_first (matches_id u) (dict_set k v) c"

section \<open>Well-formedness and the abstract view\<close>

text \<open>
  A collection written only by this program holds documents of the shape
  \<open>model_dump\<close> produces, with pairwise distinct \<open>_id\<close> (the primary key). Its
  abstract view is the map from identifier to (content, finished).
\<close>

definition wf_collection :: "collection \<Rightarrow> bool" where
  "wf_collection c = (list_all (\<lambda>d. doc_entry d \<noteq> None) c \<and> distinct (map doc_key c))"

definition todo_map :: "collection \<Rightarrow> uuid \<rightharpoonup> string \<times> bool" where
  "todo_map c = map_of (List.map_filter doc_entry c)"

section \<open>Lemmas\<close>

lemma wf_collection_Nil [simp, wf_simps]: "wf_collection []"
  by (simp add: wf_collection_def)

lemma wf_collection_Cons [simp, wf_simps]:
  "wf_collection (d # c) =
     (doc_entry d \<noteq> None \<and> doc_key d \<notin> set (map doc_key c) \<and> wf_collection c)"
  by (auto simp: wf_collection_def)

lemma todo_map_Nil [simp]: "todo_map [] = Map.empty"
  by (simp add: todo_map_def map_filter_simps)

lemma todo_map_Cons [simp]:
  "doc_entry d = Some (u, s, b) \<Longrightarrow> todo_map (d # c) = (todo_map c)(u \<mapsto> (s, b))"
  by (simp add: todo_map_def map_filter_simps)

lemma doc_key_doc_entry:
  "doc_entry d = Some (u, s, b) \<Longrightarrow> doc_key d = Some (BUuid u)"
  by (auto dest: doc_entry_SomeD simp: doc_key_def model_dump_def)

lemma matches_id_doc_entry:
  "doc_entry d = Some (u', s, b) \<Longrightarrow> matches_id u d = (u = u')"
  by (auto simp: matches_id_def doc_key_doc_entry)

lemma key_in_collection:
  "wf_collection c \<Longrightarrow> (Some (BUuid u) \<in> doc_key ` set c) = (u \<in> dom (todo_map c))"
proof (induction c)
  case Nil
  then show ?case by simp
next
  case (Cons d c)
  then obtain u' s b where e: "doc_entry d = Some (u', s, b)" by auto
  with Cons show ?case by (auto simp: doc_key_doc_entry)
qed

lemma find_one_todo_map:
  "wf_collection c \<Longrightarrow>
   find_one u c = map_option (\<lambda>(s, b). model_dump \<lparr>item_id = u, content = s, finished = b\<rparr>)
                    (todo_map c u)"
proof (induction c)
  case Nil
  then show ?case by (simp add: find_one_def)
next
  case (Cons d c)
  then obtain u' s b where e: "doc_entry d = Some (u', s, b)" by auto
  with Cons show ?case
    by (auto simp: find_one_def matches_id_doc_entry dest: doc_entry_SomeD)
qed

lemma delete_one_todo_map:
  assumes "wf_collection c" and "delete_one u c = (n, c')"
  shows "n = (if u \<in> dom (todo_map c) then 1 else 0) \<and> todo_map c' = (todo_map c)(u := None)
    \<and> wf_collection c'"
  using assms
proof (induction c arbitrary: n c')
  case Nil
  then show ?case by (simp add: delete_one_def)
next
  case (Cons d c)
  then obtain u' s b where e: "doc_entry d = Some (u', s, b)" by auto
  show ?case
  proof (cases "u = u'")
    case True
    with Cons.prems e have "u \<notin> dom (todo_map c)"
      by (simp add: key_in_collection [symmetric] doc_key_doc_entry)
    then have "todo_map c u = None" by (metis domIff)
    with Cons.prems e True show ?thesis
      by (auto simp: delete_one_def matches_id_doc_entry fun_eq_iff)
  next
    case False
    obtain n' c'' where r: "delete_one u c = (n', c'')" by fastforce
    with Cons.prems e False have c': "c' = d # c''" and n: "n = n'"
      by (auto simp: delete_one_def matches_id_doc_entry)
    from Cons.prems have wfc: "wf_collection c" by simp
    from Cons.IH [OF wfc r] have ih:
      "n' = (if u \<in> dom (todo_map c) then 1 else 0) \<and> todo_map c'' = (todo_map c)(u := None)
       \<and> wf_collection c''" .
    have "doc_key d \<notin> set (map doc_key c'')"
    proof
      assume "doc_key d \<in> set (map doc_key c'')"
      moreover from ih have "wf_collection c''" by simp
      ultimately have "u' \<in> dom (todo_map c'')"
        using key_in_collection [of c'' u'] doc_key_doc_entry [OF e] by simp
      with ih False have "u' \<in> dom (todo_map c)" by simp
      with wfc have "doc_key d \<in> doc_key ` set c"
        by (simp add: key_in_collection [symmetric] doc_key_doc_entry e)
      with Cons.prems show False by simp
    qed
    with ih e False c' n Cons.prems show ?thesis by (auto simp: fun_upd_twist)
  qed
qed


lemma wf_collection_snoc [wf_simps]:
  "wf_collection (c @ [d]) =
     (wf_collection c \<and> doc_entry d \<noteq> None \<and> doc_key d \<notin> doc_key ` set c)"
  by (auto simp: wf_collection_def)

lemma todo_map_snoc:
  assumes "doc_entry d = Some (u, s, b)" and "u \<notin> dom (todo_map c)"
  shows "todo_map (c @ [d]) = (todo_map c)(u \<mapsto> (s, b))"
proof -
  have "u \<notin> fst ` set (List.map_filter doc_entry c)"
    using assms(2) by (simp add: todo_map_def dom_map_of_conv_image_fst)
  with assms(1) show ?thesis
    by (simp add: todo_map_def map_add_upd_left dom_map_of_conv_image_fst)
qed

lemma insert_one_model_dump [store_simps]:
  "wf_collection c \<Longrightarrow>
   insert_one (model_dump t) c =
     (if item_id t \<in> dom (todo_map c) then Inl (DuplicateKeyError (BUuid (item_id t)))
      else Inr (c @ [model_dump t]))"
  using key_in_collection [of c "item_id t"]
  by (simp add: insert_one_def doc_key_def model_dump_def)

lemma insert_model_dump_wf:
  "wf_collection c \<Longrightarrow> item_id t \<notin> dom (todo_map c) \<Longrightarrow> wf_collection (c @ [model_dump t])"
  using key_in_collection [of c "item_id t"] doc_key_doc_entry [OF doc_entry_model_dump]
  by (simp add: wf_simps)

lemma insert_model_dump_todo_map [store_simps]:
  "item_id t \<notin> dom (todo_map c) \<Longrightarrow>
   todo_map (c @ [model_dump t]) = (todo_map c)(item_id t \<mapsto> (content t, finished t))"
  by (simp add: todo_map_snoc)

lemma doc_key_dict_set_finished [simp]:
  "doc_key (dict_set ''finished'' v d) = doc_key d"
  by (simp add: doc_key_def)

lemma update_first_keys:
  "(\<And>x. g (f x) = g x) \<Longrightarrow> map g (snd (update_first P f xs)) = map g xs"
  by (induction xs) (auto split: prod.splits)

lemma dict_set_finished_model_dump [simp]:
  "dict_set ''finished'' (BBool v) (model_dump t) = model_dump (t\<lparr>finished := v\<rparr>)"
  by (simp add: model_dump_def)

lemma update_one_set_finished:
  assumes "wf_collection c" and "update_one_set u ''finished'' (BBool v) c = (n, c')"
  shows "n = (if u \<in> dom (todo_map c) then 1 else 0) \<and>
    todo_map c' = (case todo_map c u of None \<Rightarrow> todo_map c
                   | Some (s, b) \<Rightarrow> (todo_map c)(u \<mapsto> (s, v))) \<and>
    wf_collection c'"
  using assms
proof (induction c arbitrary: n c')
  case Nil
  then show ?case by (simp add: update_one_set_def)
next
  case (Cons d c)
  then obtain u' s b where e: "doc_entry d = Some (u', s, b)" by auto
  from Cons.prems have wfc: "wf_collection c" by simp
  have d: "d = model_dump \<lparr>item_id = u', content = s, finished = b\<rparr>"
    using e by (rule doc_entry_SomeD)
  show ?case
  proof (cases "u = u'")
    case True
    with Cons.prems e d show ?thesis
      by (auto simp: update_one_set_def matches_id_doc_entry doc_key_def model_dump_def)
  next
    case False
    obtain n' c'' where r: "update_one_set u ''finished'' (BBool v) c = (n', c'')" by fastforce
    with Cons.prems e False have c': "c' = d # c''" and n: "n = n'"
      by (auto simp: update_one_set_def matches_id_doc_entry)
    from Cons.IH [OF wfc r] have ih:
      "n' = (if u \<in> dom (todo_map c) then 1 else 0) \<and>
       todo_map c'' = (case todo_map c u of None \<Rightarrow> todo_map c
                       | Some (s, b) \<Rightarrow> (todo_map c)(u \<mapsto> (s, v))) \<and> wf_collection c''" .
    have "c'' = snd (update_first (matches_id u) (dict_set ''finished'' (BBool v)) c)"
      using r by (simp add: update_one_set_def)
    then have "map doc_key c'' = map doc_key c"
      by (simp add: update_first_keys doc_key_dict_set_finished)
    with ih e False c' n Cons.prems show ?thesis
      by (auto simp: fun_upd_twist split: option.splits)
  qed
qed

lemma find_one_wf_Some [store_simps]:
  "wf_collection c \<Longrightarrow> todo_map c u = Some (s, b) \<Longrightarrow>
   find_one u c = Some (model_dump \<lparr>item_id = u, content = s, finished = b\<rparr>)"
  by (simp add: find_one_todo_map)

lemma find_one_wf_None [store_simps]: "wf_collection c \<Longrightarrow> todo_map c u = None \<Longrightarrow> find_one u c = None"
  by (simp add: find_one_todo_map)

lemma delete_first_none: "delete_first P xs = (0, ys) \<Longrightarrow> ys = xs"
  by (induction xs arbitrary: ys) (auto split: if_splits prod.splits)

lemma todo_map_single [store_simps]: "todo_map [model_dump t] = [item_id t \<mapsto> (content t, finished t)]"
  by (simp add: todo_map_def)

lemma wf_single: "wf_collection [model_dump t]"
  by (simp add: wf_simps doc_key_def model_dump_def)

lemma dom_todo_map: "dom (todo_map c) = fst ` set (List.map_filter doc_entry c)"
  by (simp add: todo_map_def dom_map_of_conv_image_fst)

lemma distinct_entries: "wf_collection c \<Longrightarrow> distinct (map fst (List.map_filter doc_entry c))"
proof (induction c)
  case Nil
  then show ?case by simp
next
  case (Cons d c)
  then obtain u s b where e: "doc_entry d = Some (u, s, b)" by auto
  from Cons.prems e have "Some (BUuid u) \<notin> doc_key ` set c"
    by (simp add: doc_key_doc_entry)
  with Cons.prems have "u \<notin> dom (todo_map c)"
    using key_in_collection [of c u] by simp
  with Cons e show ?case by (simp add: dom_todo_map)
qed

end
