(* ===== verification/Handlers.thy ===== *)
theory Handlers
  imports Collection
begin

text \<open>
  The four request handlers of \<^verbatim>\<open>main.py\<close> (lines 38--64), each a function of the
  collection that returns its result (an error or the value the handler returns) and
  the collection after the handler's storage calls. An \<open>HTTPException\<close> is an error
  value; a storage error is not caught by the program and is an error value too. The
  abstract specification of each handler is an operation on the map from identifier
  to (content, finished), and the refinement lemmas show that the handlers implement
  it on every well-formed collection.
\<close>

section \<open>Results\<close>

datatype http_error = HTTPException nat string | StorageError store_error

type_synonym 'a outcome = "(http_error + 'a) \<times> collection"

section \<open>Handlers\<close>

text \<open>
  \<open>create_todo(item)\<close>: a new \<open>TodoItem\<close> with the request's content and
  \<open>finished=False\<close>, inserted as \<open>model_dump(by_alias=True)\<close>, and returned. The first
  argument is the random draw of the \<open>uuid4\<close> default factory.
\<close>

definition create_todo :: "128 word \<Rightarrow> todo_item_create \<Rightarrow> collection \<Rightarrow> todo_item outcome" where
  "create_todo r item c =
     (let new_todo = new_todo_item r (create_content item) False in
      case insert_one (model_dump new_todo) c of
        Inl e \<Rightarrow> (Inl (StorageError e), c)
      | Inr c' \<Rightarrow> (Inr new_todo, c'))"

text \<open>\<open>read_todos()\<close>: \<open>await todos.find().to_list(length=None)\<close>.\<close>

definition read_todos :: "collection \<Rightarrow> document list outcome" where
  "read_todos c = (Inr (find_to_list c), c)"

text \<open>\<open>delete_todo(todo_id)\<close>: \<open>delete_one\<close>, then 404 when nothing was deleted.\<close>

definition delete_todo :: "uuid \<Rightarrow> collection \<Rightarrow> document outcome" where
  "delete_todo todo_id c =
     (case delete_one todo_id c of
        (deleted_count, c') \<Rightarrow>
          if deleted_count = 0 then (Inl (HTTPException 404 ''Todo not found''), c')
          else (Inr [(''message'', BStr ''Todo deleted successfully'')], c'))"

definition toggle_not_found :: http_error where
  "toggle_not_found =
     HTTPException 404 ''couldnt strikethrough an item because item cant be found''"

text \<open>
  \<open>toggle_finished(todo_id)\<close>: \<open>find_one\<close>; 404 when the result is falsy; otherwise the
  negation of \<open>todo.get("finished", False)\<close> is written with \<open>update_one\<close> and
  returned with the identifier.
\<close>

definition toggle_finished :: "uuid \<Rightarrow> collection \<Rightarrow> document outcome" where
  "toggle_finished todo_id c =
     (let todo = find_one todo_id c in
      if py_falsy_doc todo then (Inl toggle_not_found, c)
      else
        let new_status = \<not> py_truthy (dict_get (the todo) ''finished'' (BBool False)) in
        (case update_one_set todo_id ''finished'' (BBool new_status) c of
           (_, c') \<Rightarrow> (Inr [(''_id'', BUuid todo_id), (''finished'', BBool new_status)], c')))"

section \<open>The two storage steps of the toggle\<close>

text \<open>
  \<open>toggle_finished\<close> awaits twice; between the awaits other requests may run. Its first
  step reads the document and computes the new status; its second step writes it.
\<close>

definition toggle_read :: "uuid \<Rightarrow> collection \<Rightarrow> http_error + bool" where
  "toggle_read todo_id c =
     (let todo = find_one todo_id c in
      if py_falsy_doc todo then Inl toggle_not_found
      else Inr (\<not> py_truthy (dict_get (the todo) ''finished'' (BBool False))))"

definition toggle_write :: "uuid \<Rightarrow> bool \<Rightarrow> collection \<Rightarrow> document outcome" where
  "toggle_write todo_id new_status c =
     (case update_one_set todo_id ''finished'' (BBool new_status) c of
        (_, c') \<Rightarrow> (Inr [(''_id'', BUuid todo_id), (''finished'', BBool new_status)], c'))"

section \<open>Abstract specification\<close>

type_synonym todo_state = "uuid \<rightharpoonup> string \<times> bool"

definition abs_create :: "uuid \<Rightarrow> string \<Rightarrow> todo_state \<Rightarrow> (http_error + todo_item) \<times> todo_state" where
  "abs_create u s m =
     (if u \<in> dom m then (Inl (StorageError (DuplicateKeyError (BUuid u))), m)
      else (Inr \<lparr>item_id = u, content = s, finished = False\<rparr>, m(u \<mapsto> (s, False))))"

definition abs_delete :: "uuid \<Rightarrow> todo_state \<Rightarrow> (http_error + document) \<times> todo_state" where
  "abs_delete u m =
     (if u \<in> dom m then (Inr [(''message'', BStr ''Todo deleted successfully'')], m(u := None))
      else (Inl (HTTPException 404 ''Todo not found''), m))"

definition abs_toggle :: "uuid \<Rightarrow> todo_state \<Rightarrow> (http_error + document) \<times> todo_state" where
  "abs_toggle u m =
     (case m u of
        None \<Rightarrow> (Inl toggle_not_found, m)
      | Some (s, b) \<Rightarrow> (Inr [(''_id'', BUuid u), (''finished'', BBool (\<not> b))], m(u \<mapsto> (s, \<not> b))))"

text \<open>The abstraction of an outcome: the collection seen through \<open>todo_map\<close>.\<close>

definition abs_outcome :: "'a outcome \<Rightarrow> (http_error + 'a) \<times> todo_state" where
  "abs_outcome r = (fst r, todo_map (snd r))"

section \<open>Lemmas\<close>

subsection \<open>The toggle\<close>

lemma toggle_finished_phases:
  "toggle_finished u c =
     (case toggle_read u c of Inl e \<Rightarrow> (Inl e, c) | Inr ns \<Rightarrow> toggle_write u ns c)"
  by (simp add: toggle_finished_def toggle_read_def toggle_write_def Let_def)

lemma toggle_read_wf:
  "wf_collection c \<Longrightarrow>
   toggle_read u c = (case todo_map c u of None \<Rightarrow> Inl toggle_not_found | Some (s, b) \<Rightarrow> Inr (\<not> b))"
  by (auto simp: toggle_read_def store_simps py_falsy_doc_def split: option.splits)

lemma toggle_write_wf:
  assumes "wf_collection c" and "todo_map c u = Some (s, b)"
  shows "abs_outcome (toggle_write u v c) =
           (Inr [(''_id'', BUuid u), (''finished'', BBool v)], (todo_map c)(u \<mapsto> (s, v)))
    \<and> wf_collection (snd (toggle_write u v c))"
proof -
  obtain n c' where r: "update_one_set u ''finished'' (BBool v) c = (n, c')" by fastforce
  from update_one_set_finished [OF assms(1) r] assms(2)
  show ?thesis by (simp add: toggle_write_def abs_outcome_def r)
qed

lemma toggle_write_keeps_wf: "wf_collection c \<Longrightarrow> wf_collection (snd (toggle_write u ns c))"
  using update_one_set_finished [of c u ns]
  by (auto simp: toggle_write_def split: prod.splits)

lemma toggle_finished_present:
  assumes "wf_collection c" and "todo_map c u = Some (s, b)"
  shows "fst (toggle_finished u c) = Inr [(''_id'', BUuid u), (''finished'', BBool (\<not> b))]
    \<and> todo_map (snd (toggle_finished u c)) = (todo_map c)(u \<mapsto> (s, \<not> b))
    \<and> wf_collection (snd (toggle_finished u c))"
  using toggle_write_wf [OF assms, of "\<not> b"] assms
  by (simp add: toggle_finished_phases toggle_read_wf abs_outcome_def prod_eq_iff)

lemma toggle_finished_absent:
  "wf_collection c \<Longrightarrow> todo_map c u = None \<Longrightarrow> toggle_finished u c = (Inl toggle_not_found, c)"
  by (simp add: toggle_finished_phases toggle_read_wf)

lemma toggle_finished_wf: "wf_collection c \<Longrightarrow> wf_collection (snd (toggle_finished u c))"
  using toggle_finished_present [of c u] toggle_finished_absent [of c u]
  by (cases "todo_map c u") auto

subsection \<open>The delete\<close>

lemma delete_todo_present:
  assumes "wf_collection c" and "u \<in> dom (todo_map c)"
  shows "fst (delete_todo u c) = Inr [(''message'', BStr ''Todo deleted successfully'')]
    \<and> todo_map (snd (delete_todo u c)) = (todo_map c)(u := None)
    \<and> wf_collection (snd (delete_todo u c))"
proof -
  obtain n c' where r: "delete_one u c = (n, c')" by fastforce
  from delete_one_todo_map [OF assms(1) r] assms(2) show ?thesis
    by (simp add: delete_todo_def r)
qed

lemma delete_todo_absent:
  assumes "wf_collection c" and "u \<notin> dom (todo_map c)"
  shows "delete_todo u c = (Inl (HTTPException 404 ''Todo not found''), c)"
proof -
  obtain n c' where r: "delete_one u c = (n, c')" by fastforce
  with delete_one_todo_map [OF assms(1) r] assms(2) have "n = 0" by simp
  with r have "c' = c" by (simp add: delete_one_def delete_first_none)
  with r \<open>n = 0\<close> show ?thesis by (simp add: delete_todo_def)
qed

lemma delete_todo_wf: "wf_collection c \<Longrightarrow> wf_collection (snd (delete_todo u c))"
  using delete_todo_present [of c u] delete_todo_absent [of c u]
  by (cases "u \<in> dom (todo_map c)") auto

subsection \<open>The create and the listing\<close>

lemma create_todo_wf: "wf_collection c \<Longrightarrow> wf_collection (snd (create_todo r item c))"
  by (simp add: create_todo_def new_todo_item_def Let_def store_simps insert_model_dump_wf)

lemma read_todos_wf: "wf_collection c \<Longrightarrow> wf_collection (snd (read_todos c))"
  by (simp add: read_todos_def)

subsection \<open>Refinement of the abstract specification\<close>

text \<open>
  C1: On a well-formed collection, \<open>toggle_finished\<close> implements the abstract toggle:
  a present item has its finished flag negated and the response carries the new
  value; an absent one gives the 404 error and the map is unchanged.
\<close>

theorem toggle_finished_refines:
  "wf_collection c \<Longrightarrow> abs_outcome (toggle_finished u c) = abs_toggle u (todo_map c)"
  using toggle_finished_present [of c u] toggle_finished_absent [of c u]
  by (cases "todo_map c u")
    (auto simp: abs_toggle_def abs_outcome_def prod_eq_iff)

theorem toggle_finished_refines_witness:
  "wf_collection [model_dump \<lparr>item_id = 7, content = ''a'', finished = False\<rparr>] \<and>
   abs_outcome (toggle_finished 7 [model_dump \<lparr>item_id = 7, content = ''a'', finished = False\<rparr>]) =
   (Inr [(''_id'', BUuid 7), (''finished'', BBool True)], [7 \<mapsto> (''a'', True)])"
  using wf_single toggle_finished_refines [OF wf_single, of 7]
  by (simp add: abs_toggle_def store_simps)

text \<open>
  C2: On a well-formed collection, \<open>delete_todo\<close> implements the abstract delete: a
  present item is removed and the success message returned; an absent one gives
  404 \<open>Todo not found\<close> and the map is unchanged.
\<close>

theorem delete_todo_refines:
  "wf_collection c \<Longrightarrow> abs_outcome (delete_todo u c) = abs_delete u (todo_map c)"
  using delete_todo_present [of c u] delete_todo_absent [of c u]
  by (cases "u \<in> dom (todo_map c)")
    (auto simp: abs_delete_def abs_outcome_def prod_eq_iff)

theorem delete_todo_refines_witness:
  "wf_collection [model_dump \<lparr>item_id = 7, content = ''a'', finished = False\<rparr>] \<and>
   abs_outcome (delete_todo 7 [model_dump \<lparr>item_id = 7, content = ''a'', finished = False\<rparr>]) =
   (Inr [(''message'', BStr ''Todo deleted successfully'')], Map.empty)"
  using wf_single delete_todo_refines [OF wf_single, of 7]
  by (simp add: abs_delete_def store_simps)

text \<open>
  C3: On a well-formed collection, \<open>create_todo\<close> implements the abstract create: the
  new item has the drawn identifier, the request's content and \<open>finished = False\<close>
  (whatever the request's \<open>finished\<close>), and is added to the map; an identifier
  already present is refused by the primary key and the map is unchanged.
\<close>

theorem create_todo_refines:
  "wf_collection c \<Longrightarrow>
   abs_outcome (create_todo r item c) = abs_create (uuid4 r) (create_content item) (todo_map c)"
  by (simp add: create_todo_def abs_create_def abs_outcome_def new_todo_item_def Let_def
      store_simps)

theorem create_todo_refines_witness:
  "wf_collection [] \<and>
   abs_outcome (create_todo 0 \<lparr>create_content = ''a'', create_finished = True\<rparr> []) =
   (Inr \<lparr>item_id = uuid4 0, content = ''a'', finished = False\<rparr>, [uuid4 0 \<mapsto> (''a'', False)])"
proof -
  have h: "wf_collection []" by simp
  show ?thesis
    using h create_todo_refines [OF h, of 0 "\<lparr>create_content = ''a'', create_finished = True\<rparr>"]
    by (simp add: abs_create_def)
qed

lemma create_todo_no_http_error: "fst (create_todo r item c) \<noteq> Inl (HTTPException n m)"
  by (simp add: create_todo_def Let_def split: sum.splits)

lemma delete_todo_http_error: "fst (delete_todo u c) = Inl (HTTPException n m) \<Longrightarrow> n = 404"
  by (simp add: delete_todo_def split: prod.splits if_splits)

lemma toggle_finished_http_error: "fst (toggle_finished u c) = Inl (HTTPException n m) \<Longrightarrow> n = 404"
  by (simp add: toggle_finished_def toggle_not_found_def Let_def split: prod.splits if_splits)




end
