(* ===== verification/Api.thy ===== *)
theory Api
  imports Handlers
begin

text \<open>
  The HTTP surface of \<^verbatim>\<open>main.py\<close>: the four routes declared by the decorators on
  lines 38, 45, 50 and 57, the FastAPI steps around each handler (decoding the path
  parameter as \<open>UUID\<close>, validating the body as \<open>TodoItemCreate\<close>, validating and
  serialising the result under \<open>response_model\<close>, turning \<open>HTTPException\<close> into its
  status and an uncaught storage error into 500), and the sequential semantics of one
  request against the collection.
\<close>

section \<open>Requests and responses\<close>

datatype http_method = GET | POST | PUT | PATCH | DELETE | OtherMethod string

text \<open>A request: method, decoded path and the JSON body (\<open>None\<close>: absent or not JSON).\<close>

record request =
  req_method :: http_method
  req_path :: string
  req_body :: "json option"

text \<open>
  The responses the program can produce. \<open>HttpErr n d\<close> is an \<open>HTTPException\<close>
  (status \<open>n\<close>, body \<open>{"detail": d}\<close>); \<open>Unprocessable\<close> is FastAPI's 422 for a
  request that fails validation (its list of error details is not modelled);
  \<open>ServerError\<close> is a 500 from an uncaught exception or a response that fails its
  \<open>response_model\<close>; \<open>NoRoute\<close>, \<open>MethodNotAllowed\<close> and \<open>Redirect p\<close> (307 to the
  path \<open>p\<close>) come from the router; \<open>DocsPage e\<close> is the page of FastAPI's built-in
  documentation endpoint \<open>e\<close> (its content is not modelled).
\<close>

datatype response = Ok json | HttpErr nat string | Unprocessable | ServerError | NoRoute
  | MethodNotAllowed | Redirect string | DocsPage string

fun status_code :: "response \<Rightarrow> nat" where
  "status_code (Ok _) = 200"
| "status_code (HttpErr n _) = n"
| "status_code Unprocessable = 422"
| "status_code ServerError = 500"
| "status_code NoRoute = 404"
| "status_code MethodNotAllowed = 405"
| "status_code (Redirect _) = 307"
| "status_code (DocsPage _) = 200"

section \<open>FastAPI around the handlers\<close>

text \<open>The \<open>{todo_id}\<close> segment of \<open>/todos/{todo_id}\<close>: one non-empty path segment.\<close>

definition todo_path_param :: "string \<Rightarrow> string option" where
  "todo_path_param p =
     (if take 7 p = ''/todos/'' \<and> drop 7 p \<noteq> [] \<and> CHR ''/'' \<notin> set (drop 7 p)
      then Some (drop 7 p) else None)"

text \<open>
  The routes \<open>FastAPI()\<close> adds before the program's own (\<open>openapi_url\<close>, \<open>docs_url\<close>,
  \<open>swagger_ui_oauth2_redirect_url\<close>, \<open>redoc_url\<close> at their defaults), with their
  endpoints. They are Starlette routes, so they answer \<open>GET\<close> and \<open>HEAD\<close>.
\<close>

definition docs_routes :: "(string \<times> string) list" where
  "docs_routes =
     [(''/openapi.json'', ''openapi''), (''/docs'', ''swagger_ui_html''),
      (''/docs/oauth2-redirect'', ''swagger_ui_redirect''), (''/redoc'', ''redoc_html'')]"

text \<open>Whether some route of the application matches a path, for any method.\<close>

definition route_exists :: "string \<Rightarrow> bool" where
  "route_exists p =
     (if p = ''/todos'' then True
      else case todo_path_param p of
             Some _ \<Rightarrow> True
           | None \<Rightarrow> (case map_of docs_routes p of Some _ \<Rightarrow> True | None \<Rightarrow> False))"

text \<open>
  \<open>Router.app\<close> with \<open>redirect_slashes=True\<close>, when no route matches: for a path other
  than \<open>/\<close>, the trailing slashes are stripped (\<open>rstrip("/")\<close>) or one is added, and
  if a route matches the result, the answer is a redirect there.
\<close>

definition slash_redirect :: "string \<Rightarrow> string option" where
  "slash_redirect p =
     (if p = ''/'' then None
      else
        (let p' = (if p \<noteq> [] \<and> last p = CHR ''/''
                   then rev (dropWhile (\<lambda>ch. ch = CHR ''/'') (rev p)) else p @ ''/'')
         in if route_exists p' then Some p' else None))"

text \<open>
  A path that neither \<open>/todos\<close> nor \<open>/todos/{todo_id}\<close> matches: a documentation
  route (405 for another method), else the slash redirect, else 404.
\<close>

definition other_routes :: "http_method \<Rightarrow> string \<Rightarrow> response" where
  "other_routes m p =
     (case map_of docs_routes p of
        Some e \<Rightarrow> if m = GET \<or> m = OtherMethod ''HEAD'' then DocsPage e else MethodNotAllowed
      | None \<Rightarrow> (case slash_redirect p of Some p' \<Rightarrow> Redirect p' | None \<Rightarrow> NoRoute))"

text \<open>The response for a handler's outcome, given how its value is serialised.\<close>

definition to_response :: "('a \<Rightarrow> response) \<Rightarrow> 'a outcome \<Rightarrow> response \<times> collection" where
  "to_response f r =
     (case r of
        (Inl (HTTPException n d), c') \<Rightarrow> (HttpErr n d, c')
      | (Inl (StorageError e), c') \<Rightarrow> (ServerError, c')
      | (Inr v, c') \<Rightarrow> (f v, c'))"

text \<open>
  \<open>response_model=list[TodoItem]\<close>: every returned document is validated as a
  \<open>TodoItem\<close> (the \<open>i\<close>-th with draw \<open>rs i\<close> for a missing identifier); one failure
  makes the whole response a 500.
\<close>

definition validate_items :: "(nat \<Rightarrow> 128 word) \<Rightarrow> document list \<Rightarrow> todo_item list option" where
  "validate_items rs ds = those (map (\<lambda>(i, d). validate_item (rs i) d) (enumerate 0 ds))"

definition list_response :: "(nat \<Rightarrow> 128 word) \<Rightarrow> document list \<Rightarrow> response" where
  "list_response rs ds =
     (case validate_items rs ds of
        None \<Rightarrow> ServerError
      | Some items \<Rightarrow> Ok (JArr (map item_json items)))"

text \<open>
  One request handled to completion against the collection. \<open>rs\<close> supplies the random
  draws of \<open>uuid4\<close>: \<open>rs 0\<close> for the new item of a create, \<open>rs i\<close> for the
  \<open>i\<close>-th document of a listing.
\<close>

definition dispatch :: "(nat \<Rightarrow> 128 word) \<Rightarrow> request \<Rightarrow> collection \<Rightarrow> response \<times> collection" where
  "dispatch rs rq c =
     (if req_path rq = ''/todos'' then
        (case req_method rq of
           POST \<Rightarrow>
             (case Option.bind (req_body rq) validate_create of
                None \<Rightarrow> (Unprocessable, c)
              | Some item \<Rightarrow> to_response (\<lambda>t. Ok (item_json t)) (create_todo (rs 0) item c))
         | GET \<Rightarrow> to_response (list_response rs) (read_todos c)
         | _ \<Rightarrow> (MethodNotAllowed, c))
      else
        (case todo_path_param (req_path rq) of
           None \<Rightarrow> (other_routes (req_method rq) (req_path rq), c)
         | Some seg \<Rightarrow>
             (case req_method rq of
                DELETE \<Rightarrow>
                  (case uuid_parse seg of
                     None \<Rightarrow> (Unprocessable, c)
                   | Some u \<Rightarrow> to_response (\<lambda>d. Ok (doc_json d)) (delete_todo u c))
              | PATCH \<Rightarrow>
                  (case uuid_parse seg of
                     None \<Rightarrow> (Unprocessable, c)
                   | Some u \<Rightarrow> to_response (\<lambda>d. Ok (doc_json d)) (toggle_finished u c))
              | _ \<Rightarrow> (MethodNotAllowed, c))))"

text \<open>The path of an item's URL, as a client builds it from the identifier it was given.\<close>

definition todo_url :: "uuid \<Rightarrow> string" where
  "todo_url u = ''/todos/'' @ uuid_str u"

section \<open>Lemmas\<close>

lemma todo_path_param_todo_url [simp]: "todo_path_param (todo_url u) = Some (uuid_str u)"
proof -
  have "uuid_str u \<noteq> []" using length_uuid_str [of u] by (metis list.size(3) zero_neq_numeral)
  then show ?thesis by (simp add: todo_path_param_def todo_url_def slash_notin_uuid_str)
qed

lemma todo_url_not_todos [simp]: "todo_url u \<noteq> ''/todos''"
  by (simp add: todo_url_def)

lemma dispatch_patch:
  "dispatch rs \<lparr>req_method = PATCH, req_path = todo_url u, req_body = b\<rparr> c =
   to_response (\<lambda>d. Ok (doc_json d)) (toggle_finished u c)"
  by (simp add: dispatch_def uuid_parse_uuid_str)

lemma dispatch_delete:
  "dispatch rs \<lparr>req_method = DELETE, req_path = todo_url u, req_body = b\<rparr> c =
   to_response (\<lambda>d. Ok (doc_json d)) (delete_todo u c)"
  by (simp add: dispatch_def uuid_parse_uuid_str)

lemma dispatch_post:
  "validate_create b = Some item \<Longrightarrow>
   dispatch rs \<lparr>req_method = POST, req_path = ''/todos'', req_body = Some b\<rparr> c =
   to_response (\<lambda>t. Ok (item_json t)) (create_todo (rs 0) item c)"
  by (simp add: dispatch_def)

lemma dispatch_get:
  "dispatch rs \<lparr>req_method = GET, req_path = ''/todos'', req_body = b\<rparr> c =
   (list_response rs c, c)"
  by (simp add: dispatch_def to_response_def read_todos_def find_to_list_def)

lemma validate_items_from:
  "list_all (\<lambda>d. doc_entry d \<noteq> None) ds \<Longrightarrow>
   those (map (\<lambda>(i, d). validate_item (rs i) d) (enumerate n ds)) =
   Some (map entry_item (List.map_filter doc_entry ds))"
  by (induction ds arbitrary: n) (auto simp: validate_item_doc_entry)

lemma validate_items_wf:
  "wf_collection c \<Longrightarrow> validate_items rs c = Some (map entry_item (List.map_filter doc_entry c))"
  by (simp add: validate_items_def wf_collection_def validate_items_from)


lemma to_response_eq:
  "to_response f r =
     ((case fst r of Inl (HTTPException n d) \<Rightarrow> HttpErr n d | Inl (StorageError e) \<Rightarrow> ServerError
       | Inr v \<Rightarrow> f v), snd r)"
  by (simp add: to_response_def split: prod.splits sum.splits http_error.splits)

lemma dispatch_get_wf:
  "wf_collection c \<Longrightarrow>
   dispatch rs \<lparr>req_method = GET, req_path = ''/todos'', req_body = b\<rparr> c =
   (Ok (JArr (map (\<lambda>e. item_json (entry_item e)) (List.map_filter doc_entry c))), c)"
  by (simp add: dispatch_get list_response_def validate_items_wf)

text \<open>
  C8: Toggling a present item twice through \<open>PATCH /todos/{id}\<close>, one request after
  the other, answers first the negated flag and then the original one, and leaves the
  abstract state as it was.
\<close>

theorem api_toggle_twice:
  assumes wf: "wf_collection c" and present: "todo_map c u = Some (s, b)"
    and first: "dispatch rs \<lparr>req_method = PATCH, req_path = todo_url u, req_body = None\<rparr> c = (r1, c1)"
    and second: "dispatch rs \<lparr>req_method = PATCH, req_path = todo_url u, req_body = None\<rparr> c1 = (r2, c2)"
  shows "r1 = Ok (JObj [(''_id'', JStr (uuid_str u)), (''finished'', JBool (\<not> b))])
    \<and> r2 = Ok (JObj [(''_id'', JStr (uuid_str u)), (''finished'', JBool b)])
    \<and> todo_map c2 = todo_map c"
proof -
  note t1 = toggle_finished_present [OF wf present]
  from first have c1: "c1 = snd (toggle_finished u c)"
    and r1: "r1 = Ok (doc_json (projr (fst (toggle_finished u c))))"
    using t1 by (auto simp: dispatch_patch to_response_eq)
  from t1 c1 have wf1: "wf_collection c1" and p1: "todo_map c1 u = Some (s, \<not> b)" by auto
  note t2 = toggle_finished_present [OF wf1 p1]
  from second t2 have "c2 = snd (toggle_finished u c1)"
    and "r2 = Ok (doc_json (projr (fst (toggle_finished u c1))))"
    by (auto simp: dispatch_patch to_response_eq)
  with t1 t2 r1 c1 present show ?thesis
    by (auto simp: doc_json_def fun_eq_iff)
qed


text \<open>
  C9: Deleting a present item answers the success message and removes it; deleting
  it again answers 404 \<open>Todo not found\<close> and changes nothing.
\<close>

theorem api_delete_twice:
  assumes wf: "wf_collection c" and present: "u \<in> dom (todo_map c)"
    and first: "dispatch rs \<lparr>req_method = DELETE, req_path = todo_url u, req_body = None\<rparr> c = (r1, c1)"
    and second: "dispatch rs \<lparr>req_method = DELETE, req_path = todo_url u, req_body = None\<rparr> c1 = (r2, c2)"
  shows "r1 = Ok (JObj [(''message'', JStr ''Todo deleted successfully'')])
    \<and> todo_map c1 = (todo_map c)(u := None)
    \<and> r2 = HttpErr 404 ''Todo not found'' \<and> c2 = c1"
proof -
  note d1 = delete_todo_present [OF wf present]
  from first d1 have c1: "c1 = snd (delete_todo u c)"
    and r1: "r1 = Ok (JObj [(''message'', JStr ''Todo deleted successfully'')])"
    by (auto simp: dispatch_delete to_response_eq doc_json_def)
  from d1 c1 have wf1: "wf_collection c1" and a1: "u \<notin> dom (todo_map c1)" by auto
  from second delete_todo_absent [OF wf1 a1] have "r2 = HttpErr 404 ''Todo not found''" and "c2 = c1"
    by (auto simp: dispatch_delete to_response_def)
  with r1 c1 d1 show ?thesis by simp
qed

text \<open>
  C10: Toggling an identifier that is not stored answers 404 with the handler's detail
  and leaves the collection exactly as it was: no item is created.
\<close>

theorem api_toggle_missing:
  assumes "wf_collection c" and "todo_map c u = None"
  shows "dispatch rs \<lparr>req_method = PATCH, req_path = todo_url u, req_body = b\<rparr> c =
    (HttpErr 404 ''couldnt strikethrough an item because item cant be found'', c)"
  using toggle_finished_absent [OF assms(1)] assms(2)
  by (simp add: dispatch_patch to_response_def toggle_not_found_def)

text \<open>
  C7: A successful \<open>POST /todos\<close> answers the new item (fresh identifier from
  \<open>uuid4\<close>, the request's content, \<open>finished = false\<close> whatever the request said),
  and the next \<open>GET /todos\<close> lists exactly what it listed before followed by that
  same item, field for field.
\<close>

theorem api_create_then_list:
  assumes wf: "wf_collection c" and fresh: "uuid4 (rs 0) \<notin> dom (todo_map c)"
    and body: "validate_create b = Some item"
    and post: "dispatch rs \<lparr>req_method = POST, req_path = ''/todos'', req_body = Some b\<rparr> c = (r1, c1)"
    and before: "fst (dispatch rs' \<lparr>req_method = GET, req_path = ''/todos'', req_body = None\<rparr> c) = Ok (JArr js)"
  shows "r1 = Ok (item_json \<lparr>item_id = uuid4 (rs 0), content = create_content item, finished = False\<rparr>)
    \<and> fst (dispatch rs' \<lparr>req_method = GET, req_path = ''/todos'', req_body = None\<rparr> c1) =
        Ok (JArr (js @ [item_json \<lparr>item_id = uuid4 (rs 0), content = create_content item,
                                     finished = False\<rparr>]))"
proof -
  let ?t = "\<lparr>item_id = uuid4 (rs 0), content = create_content item, finished = False\<rparr>"
  have ins: "insert_one (model_dump ?t) c = Inr (c @ [model_dump ?t])"
    using insert_one_model_dump [OF wf, of ?t] fresh by simp
  with post body have r1: "r1 = Ok (item_json ?t)" and c1: "c1 = c @ [model_dump ?t]"
    by (auto simp: dispatch_post create_todo_def new_todo_item_def to_response_def Let_def)
  have wf1: "wf_collection c1"
    using insert_model_dump_wf [OF wf, of ?t] fresh c1 by simp
  from before dispatch_get_wf [OF wf]
  have "js = map (\<lambda>e. item_json (entry_item e)) (List.map_filter doc_entry c)" by simp
  with dispatch_get_wf [OF wf1] c1 r1 show ?thesis
    by (simp add: entry_item_def)
qed

text \<open>
  C11: A \<open>DELETE\<close> or \<open>PATCH\<close> whose path segment is not a UUID is answered 422
  before any storage access: the collection is unchanged.
\<close>

theorem api_invalid_id:
  assumes "todo_path_param (req_path rq) = Some seg" and "uuid_parse seg = None"
    and "req_method rq = DELETE \<or> req_method rq = PATCH"
  shows "dispatch rs rq c = (Unprocessable, c)"
proof -
  have "req_path rq \<noteq> ''/todos''"
    using assms(1) by (auto simp: todo_path_param_def)
  with assms show ?thesis by (auto simp: dispatch_def)
qed

text \<open>
  C14: The \<open>finished\<close> member of a create request is ignored by the handler but
  still validated (\<open>finished: bool = True\<close>, line 36): a body with a valid string
  \<open>content\<close> whose \<open>finished\<close> member is not a boolean in lax mode (a boolean, the
  integers 0 and 1, or one of pydantic's twelve spellings in any case) is refused with
  422, and nothing is stored.
\<close>

theorem api_create_validates_ignored_finished:
  assumes "json_field kvs ''content'' = Some (JStr s)"
    and "json_field kvs ''finished'' = Some v" and "json_as_bool v = None"
  shows "dispatch rs \<lparr>req_method = POST, req_path = ''/todos'', req_body = Some (JObj kvs)\<rparr> c =
    (Unprocessable, c)"
  using assms by (simp add: dispatch_def validate_create_def)

theorem api_create_validates_ignored_finished_witness:
  "json_field [(''content'', JStr ''x''), (''finished'', JStr ''maybe'')] ''content'' = Some (JStr ''x'') \<and>
   json_field [(''content'', JStr ''x''), (''finished'', JStr ''maybe'')] ''finished'' = Some (JStr ''maybe'') \<and>
   json_as_bool (JStr ''maybe'') = None \<and>
   dispatch (\<lambda>_. 0) \<lparr>req_method = POST, req_path = ''/todos'',
     req_body = Some (JObj [(''content'', JStr ''x''), (''finished'', JStr ''maybe'')])\<rparr> [] =
   (Unprocessable, [])"
  using api_create_validates_ignored_finished [of "[(''content'', JStr ''x''), (''finished'', JStr ''maybe'')]"
      "''x''" "JStr ''maybe''" "\<lambda>_. 0" "[]"]
  by (simp add: json_field_def str_as_bool_def lower_char_def)

lemma snd_to_response [simp]: "snd (to_response f r) = snd r"
  by (simp add: to_response_def split: prod.splits sum.splits http_error.splits)

lemma dispatch_wf: "wf_collection c \<Longrightarrow> wf_collection (snd (dispatch rs rq c))"
  by (simp add: dispatch_def create_todo_wf read_todos_wf delete_todo_wf toggle_finished_wf
      split: http_method.splits option.splits)

theorem api_toggle_twice_witness:
  "wf_collection [model_dump \<lparr>item_id = 7, content = ''a'', finished = False\<rparr>] \<and>
   fst (dispatch (\<lambda>_. 0) \<lparr>req_method = PATCH, req_path = todo_url 7, req_body = None\<rparr>
     [model_dump \<lparr>item_id = 7, content = ''a'', finished = False\<rparr>]) =
   Ok (JObj [(''_id'', JStr (uuid_str 7)), (''finished'', JBool True)]) \<and>
   fst (dispatch (\<lambda>_. 0) \<lparr>req_method = PATCH, req_path = todo_url 7, req_body = None\<rparr>
     (snd (dispatch (\<lambda>_. 0) \<lparr>req_method = PATCH, req_path = todo_url 7, req_body = None\<rparr>
       [model_dump \<lparr>item_id = 7, content = ''a'', finished = False\<rparr>]))) =
   Ok (JObj [(''_id'', JStr (uuid_str 7)), (''finished'', JBool False)])"
proof -
  let ?p = "\<lparr>req_method = PATCH, req_path = todo_url 7, req_body = None\<rparr>"
  let ?c = "[model_dump \<lparr>item_id = 7, content = ''a'', finished = False\<rparr>]"
  have h: "wf_collection ?c" by (rule wf_single)
  have p: "todo_map ?c 7 = Some (''a'', False)" by (simp add: todo_map_single)
  from api_toggle_twice [OF h p prod.collapse [symmetric] prod.collapse [symmetric],
      of "\<lambda>_. 0"] h
  show ?thesis by simp
qed

theorem api_delete_twice_witness:
  "wf_collection [model_dump \<lparr>item_id = 7, content = ''a'', finished = False\<rparr>] \<and>
   fst (dispatch (\<lambda>_. 0) \<lparr>req_method = DELETE, req_path = todo_url 7, req_body = None\<rparr>
     [model_dump \<lparr>item_id = 7, content = ''a'', finished = False\<rparr>]) =
   Ok (JObj [(''message'', JStr ''Todo deleted successfully'')]) \<and>
   fst (dispatch (\<lambda>_. 0) \<lparr>req_method = DELETE, req_path = todo_url 7, req_body = None\<rparr>
     (snd (dispatch (\<lambda>_. 0) \<lparr>req_method = DELETE, req_path = todo_url 7, req_body = None\<rparr>
       [model_dump \<lparr>item_id = 7, content = ''a'', finished = False\<rparr>]))) =
   HttpErr 404 ''Todo not found''"
proof -
  let ?c = "[model_dump \<lparr>item_id = 7, content = ''a'', finished = False\<rparr>]"
  have h: "wf_collection ?c" by (rule wf_single)
  have p: "(7 :: uuid) \<in> dom (todo_map ?c)" by (simp add: todo_map_single)
  from api_delete_twice [OF h p prod.collapse [symmetric] prod.collapse [symmetric],
      of "\<lambda>_. 0"] h
  show ?thesis by simp
qed

theorem api_toggle_missing_witness:
  "wf_collection [] \<and> todo_map [] 7 = None \<and>
   dispatch (\<lambda>_. 0) \<lparr>req_method = PATCH, req_path = todo_url 7, req_body = None\<rparr> [] =
   (HttpErr 404 ''couldnt strikethrough an item because item cant be found'', [])"
proof -
  have h: "wf_collection []" and n: "todo_map [] 7 = None" by simp_all
  from api_toggle_missing [OF h n, of "\<lambda>_. 0" None] h n show ?thesis by simp
qed

theorem api_invalid_id_witness:
  "todo_path_param ''/todos/abc'' = Some ''abc'' \<and> uuid_parse ''abc'' = None \<and>
   dispatch (\<lambda>_. 0) \<lparr>req_method = DELETE, req_path = ''/todos/abc'', req_body = None\<rparr> [] =
   (Unprocessable, [])"
proof -
  have p: "todo_path_param ''/todos/abc'' = Some ''abc''" by (simp add: todo_path_param_def)
  have u: "uuid_parse ''abc'' = None" by (simp add: uuid_parse_def)
  from api_invalid_id [of "\<lparr>req_method = DELETE, req_path = ''/todos/abc'', req_body = None\<rparr>"
      "''abc''" "\<lambda>_. 0" "[]"] p u
  show ?thesis by simp
qed

theorem api_create_then_list_witness:
  "wf_collection [] \<and> uuid4 0 \<notin> dom (todo_map []) \<and>
   validate_create (JObj [(''content'', JStr ''a''), (''finished'', JBool True)]) =
     Some \<lparr>create_content = ''a'', create_finished = True\<rparr> \<and>
   fst (dispatch (\<lambda>_. 0) \<lparr>req_method = GET, req_path = ''/todos'', req_body = None\<rparr> []) =
     Ok (JArr []) \<and>
   fst (dispatch (\<lambda>_. 0) \<lparr>req_method = POST, req_path = ''/todos'',
     req_body = Some (JObj [(''content'', JStr ''a''), (''finished'', JBool True)])\<rparr> []) =
     Ok (item_json \<lparr>item_id = uuid4 0, content = ''a'', finished = False\<rparr>) \<and>
   fst (dispatch (\<lambda>_. 0) \<lparr>req_method = GET, req_path = ''/todos'', req_body = None\<rparr>
     (snd (dispatch (\<lambda>_. 0) \<lparr>req_method = POST, req_path = ''/todos'',
       req_body = Some (JObj [(''content'', JStr ''a''), (''finished'', JBool True)])\<rparr> []))) =
     Ok (JArr [item_json \<lparr>item_id = uuid4 0, content = ''a'', finished = False\<rparr>])"
proof -
  have h: "wf_collection []" and f: "uuid4 0 \<notin> dom (todo_map [])" by simp_all
  have b: "validate_create (JObj [(''content'', JStr ''a''), (''finished'', JBool True)]) =
      Some \<lparr>create_content = ''a'', create_finished = True\<rparr>"
    by (simp add: validate_create_def json_field_def)
  have g: "fst (dispatch (\<lambda>_. 0) \<lparr>req_method = GET, req_path = ''/todos'', req_body = None\<rparr> []) =
      Ok (JArr [])"
    by (simp add: dispatch_get_wf)
  from api_create_then_list [OF h f b prod.collapse [symmetric] g] h f b g
  show ?thesis by simp
qed

text \<open>
  C15: \<open>GET /todos\<close> on a well-formed collection answers the list of all stored
  items, each once, with exactly the content and finished flag the collection holds
  for its identifier.
\<close>

theorem api_list_is_todo_map:
  assumes "wf_collection c"
  shows "\<exists>items. dispatch rs \<lparr>req_method = GET, req_path = ''/todos'', req_body = b\<rparr> c =
      (Ok (JArr (map item_json items)), c)
    \<and> distinct (map item_id items)
    \<and> map_of (map (\<lambda>t. (item_id t, content t, finished t)) items) = todo_map c"
proof -
  let ?es = "List.map_filter doc_entry c"
  show ?thesis
    using assms dispatch_get_wf [OF assms, of rs b] distinct_entries [OF assms]
    by (intro exI [of _ "map entry_item ?es"]) (simp add: item_id_entry_item entry_item_fields todo_map_def)
qed

theorem api_list_is_todo_map_witness:
  "wf_collection [model_dump \<lparr>item_id = 7, content = ''a'', finished = False\<rparr>] \<and>
   (\<exists>items. dispatch (\<lambda>_. 0) \<lparr>req_method = GET, req_path = ''/todos'', req_body = None\<rparr>
       [model_dump \<lparr>item_id = 7, content = ''a'', finished = False\<rparr>] =
      (Ok (JArr (map item_json items)), [model_dump \<lparr>item_id = 7, content = ''a'', finished = False\<rparr>])
    \<and> distinct (map item_id items)
    \<and> map_of (map (\<lambda>t. (item_id t, content t, finished t)) items) = [7 \<mapsto> (''a'', False)])"
proof -
  have h: "wf_collection [model_dump \<lparr>item_id = 7, content = ''a'', finished = False\<rparr>]"
    by (rule wf_single)
  show ?thesis
    using h api_list_is_todo_map [OF h, of "\<lambda>_. 0" None] by (simp add: store_simps)
qed

lemma validate_items_None:
  "d \<in> set ds \<Longrightarrow> (\<And>r. validate_item r d = None) \<Longrightarrow> validate_items rs ds = None"
proof -
  assume d: "d \<in> set ds" and v: "\<And>r. validate_item r d = None"
  from in_set_enumerate [OF d, of 0] obtain i where "(i, d) \<in> set (enumerate 0 ds)" by blast
  then have "(\<lambda>(i, d). validate_item (rs i) d) (i, d) \<in>
      set (map (\<lambda>(i, d). validate_item (rs i) d) (enumerate 0 ds))"
    by (simp only: set_map) (rule imageI)
  then have "None \<in> set (map (\<lambda>(i, d). validate_item (rs i) d) (enumerate 0 ds))"
    using v by simp
  then show ?thesis by (simp add: validate_items_def those_None)
qed

lemma to_response_status:
  "(\<And>n m. fst r = Inl (HTTPException n m) \<Longrightarrow> n = 404) \<Longrightarrow> (\<And>v. status_code (f v) = 200) \<Longrightarrow>
   status_code (fst (to_response f r)) \<in> {200, 404, 500}"
  by (auto simp: to_response_eq split: sum.splits http_error.splits)

lemma list_response_status: "status_code (list_response rs ds) \<in> {200, 500}"
  by (simp add: list_response_def split: option.splits)

text \<open>
  C17: \<open>GET /todos\<close> on a collection holding a document without \<open>content\<close> (one
  this program did not write) answers 500: the whole listing fails its
  \<open>response_model\<close>.
\<close>

theorem api_list_foreign_document:
  "d \<in> set c \<Longrightarrow> map_of d ''content'' = None \<Longrightarrow>
   dispatch rs \<lparr>req_method = GET, req_path = ''/todos'', req_body = b\<rparr> c = (ServerError, c)"
  by (simp add: dispatch_get list_response_def validate_items_None validate_item_no_content)

theorem api_list_foreign_document_witness:
  "[(''_id'', BUuid 1)] \<in> set [[(''_id'', BUuid 1)]] \<and>
   map_of [(''_id'', BUuid 1)] ''content'' = None \<and>
   dispatch (\<lambda>_. 0) \<lparr>req_method = GET, req_path = ''/todos'', req_body = None\<rparr>
     [[(''_id'', BUuid 1)]] = (ServerError, [[(''_id'', BUuid 1)]])"
  using api_list_foreign_document [of "[(''_id'', BUuid 1)]" "[[(''_id'', BUuid 1)]]" "\<lambda>_. 0" None]
  by simp

lemma other_routes_status: "status_code (other_routes m p) \<in> {200, 307, 404, 405}"
  by (simp add: other_routes_def split: option.splits)

text \<open>
  The statuses of the routes: the handlers raise no \<open>HTTPException\<close> other than 404,
  and every other answer is the router's (a documentation page, a slash redirect, 404,
  405), validation's (422) or an uncaught error (500).
\<close>

lemma dispatch_status:
  "status_code (fst (dispatch rs rq c)) \<in> {200, 307, 404, 405, 422, 500}"
proof -
  let ?S = "{200, 307, 404, 405, 422, 500} :: nat set"
  have c0: "status_code (fst (to_response (\<lambda>t. Ok (item_json t)) (create_todo r item c))) \<in> {200, 404, 500}"
    for r item c using create_todo_no_http_error by (intro to_response_status) auto
  have c: "status_code (fst (to_response (\<lambda>t. Ok (item_json t)) (create_todo r item c))) \<in> ?S"
    for r item c using c0 [of r item c] by auto
  have d0: "status_code (fst (to_response (\<lambda>d. Ok (doc_json d)) (delete_todo u c))) \<in> {200, 404, 500}"
    for u c using delete_todo_http_error by (intro to_response_status) auto
  have d: "status_code (fst (to_response (\<lambda>d. Ok (doc_json d)) (delete_todo u c))) \<in> ?S" for u c
    using d0 [of u c] by auto
  have t0: "status_code (fst (to_response (\<lambda>d. Ok (doc_json d)) (toggle_finished u c))) \<in> {200, 404, 500}"
    for u c using toggle_finished_http_error by (intro to_response_status) auto
  have t: "status_code (fst (to_response (\<lambda>d. Ok (doc_json d)) (toggle_finished u c))) \<in> ?S"
    for u c using t0 [of u c] by auto
  have l: "status_code (fst (to_response (list_response rs) (read_todos c))) \<in> ?S" for c
    using list_response_status [of rs c] by (auto simp: read_todos_def find_to_list_def to_response_def)
  have o: "status_code (other_routes m p) \<in> ?S" for m p
    using other_routes_status [of m p] by auto
  show ?thesis
  proof (cases "req_path rq = ''/todos''")
    case True
    then show ?thesis
      by (cases "req_method rq"; simp add: dispatch_def c l del: insert_iff split: option.splits; simp)
  next
    case False
    then show ?thesis
      by (cases "todo_path_param (req_path rq)"; cases "req_method rq";
          simp add: dispatch_def d t o del: insert_iff split: option.splits; simp)
  qed
qed

lemma route_exists_not_Nil: "route_exists p \<Longrightarrow> p \<noteq> []"
  by (auto simp: route_exists_def todo_path_param_def docs_routes_def)

lemma docs_routes_last: "map_of docs_routes q = Some e \<Longrightarrow> last q \<noteq> CHR ''/''"
  by (auto simp: docs_routes_def split: if_splits)

lemma rstrip_snoc_slash:
  "last p \<noteq> CHR ''/'' \<Longrightarrow> p \<noteq> [] \<Longrightarrow>
   dropWhile (\<lambda>ch. ch = CHR ''/'') (rev p) = rev p"
  by (cases "rev p") (auto simp: last_rev [symmetric])

lemma todo_path_param_snoc_slash: "todo_path_param (p @ ''/'') = None"
  by (cases "length p < 7") (auto simp: todo_path_param_def)

lemma slash_redirect_snoc:
  "route_exists p \<Longrightarrow> last p \<noteq> CHR ''/'' \<Longrightarrow> slash_redirect (p @ ''/'') = Some p"
  using route_exists_not_Nil [of p] by (simp add: slash_redirect_def rstrip_snoc_slash)

text \<open>
  C21: Every path a route matches, written with a trailing slash, is answered
  \<open>307\<close> to the path without it, for any method and before any handler runs:
  \<open>DELETE /todos/{id}/\<close> is redirected, not executed.
\<close>

theorem slash_redirect_route:
  assumes "route_exists p" and "last p \<noteq> CHR ''/''"
  shows "dispatch rs (rq\<lparr>req_path := p @ ''/''\<rparr>) c = (Redirect p, c)"
proof -
  have "map_of docs_routes (p @ ''/'') = None"
    using docs_routes_last [of "p @ ''/''"] by (cases "map_of docs_routes (p @ ''/'')") auto
  moreover have "p @ ''/'' \<noteq> ''/todos''"
    using arg_cong [of "p @ ''/''" "''/todos''" last] by auto
  ultimately show ?thesis
    using assms by (simp add: dispatch_def other_routes_def todo_path_param_snoc_slash slash_redirect_snoc)
qed

theorem slash_redirect_route_witness:
  "route_exists ''/todos'' \<and> last ''/todos'' \<noteq> CHR ''/'' \<and>
   dispatch (\<lambda>_. 0) \<lparr>req_method = DELETE, req_path = ''/todos/'', req_body = None\<rparr> [] =
     (Redirect ''/todos'', [])"
  using slash_redirect_route [of "''/todos''" "\<lambda>_. 0"
      "\<lparr>req_method = DELETE, req_path = ''/todos/'', req_body = None\<rparr>" "[]"]
  by (simp add: route_exists_def)


lemma find_one_not_Nil: "find_one u c = Some d \<Longrightarrow> d \<noteq> []"
  by (auto simp: find_one_def matches_id_def doc_key_def dest: find_Some_iff [THEN iffD1])

text \<open>
  C13: A stored document without a \<open>finished\<close> field (written by another client) is
  toggled as unfinished: \<open>todo.get("finished", False)\<close> (line 62) makes the toggle
  answer \<open>finished: true\<close> and \<open>$set\<close> stores \<open>finished: true\<close> in it.
\<close>

theorem api_toggle_missing_finished:
  assumes "find_one u c = Some d" and "map_of d ''finished'' = None"
  shows "dispatch rs \<lparr>req_method = PATCH, req_path = todo_url u, req_body = b\<rparr> c =
    (Ok (JObj [(''_id'', JStr (uuid_str u)), (''finished'', JBool True)]),
     snd (update_one_set u ''finished'' (BBool True) c))"
  using assms find_one_not_Nil [OF assms(1)]
  by (simp add: dispatch_patch toggle_finished_def py_falsy_doc_def to_response_def doc_json_def
      split: prod.splits)

theorem api_toggle_missing_finished_witness:
  "find_one 7 [[(''_id'', BUuid 7), (''content'', BStr ''a'')]] = Some [(''_id'', BUuid 7), (''content'', BStr ''a'')] \<and>
   map_of [(''_id'', BUuid 7), (''content'', BStr ''a'')] ''finished'' = None \<and>
   dispatch (\<lambda>_. 0) \<lparr>req_method = PATCH, req_path = todo_url 7, req_body = None\<rparr>
     [[(''_id'', BUuid 7), (''content'', BStr ''a'')]] =
   (Ok (JObj [(''_id'', JStr (uuid_str 7)), (''finished'', JBool True)]),
    [[(''_id'', BUuid 7), (''content'', BStr ''a''), (''finished'', BBool True)]])"
  using api_toggle_missing_finished [of 7 "[[(''_id'', BUuid 7), (''content'', BStr ''a'')]]"
      "[(''_id'', BUuid 7), (''content'', BStr ''a'')]" "\<lambda>_. 0" None]
  by (simp add: find_one_def matches_id_def doc_key_def update_one_set_def)

end
