(* ===== verification/Concurrency.thy ===== *)
theory Concurrency
  imports Api
begin

text \<open>
  Interleaving of requests. Each handler of \<^verbatim>\<open>main.py\<close> is a coroutine that suspends
  at its \<open>await\<close>s; while it waits, the event loop runs other requests. A storage call
  is one atomic step against the collection. \<open>create_todo\<close>, \<open>read_todos\<close> and
  \<open>delete_todo\<close> await once, so they take effect in one step; \<open>toggle_finished\<close>
  awaits \<open>find_one\<close> and then \<open>update_one\<close> (lines 59 and 63), so it takes two steps
  and other requests may run between them. The server state is the collection and the
  list of requests in progress; a step is the arrival of a request, the first step of a
  waiting request, or the second step of a suspended toggle.
\<close>

section \<open>Tasks and server state\<close>

datatype task = Waiting request | TogglePending uuid bool | Done response

record server =
  coll :: collection
  tasks :: "task list"

text \<open>The identifier a request toggles, when it is routed to \<open>toggle_finished\<close>.\<close>

definition toggle_target :: "request \<Rightarrow> uuid option" where
  "toggle_target rq =
     (if req_method rq = PATCH then Option.bind (todo_path_param (req_path rq)) uuid_parse
      else None)"

text \<open>
  The first step of a request: a toggle reads the document and suspends with the status
  it will write (or answers 404); every other request runs to its response.
\<close>

definition begin_request :: "(nat \<Rightarrow> 128 word) \<Rightarrow> request \<Rightarrow> collection \<Rightarrow> task \<times> collection" where
  "begin_request rs rq c =
     (case toggle_target rq of
        Some u \<Rightarrow>
          (case toggle_read u c of
             Inl e \<Rightarrow> (Done (fst (to_response (\<lambda>d. Ok (doc_json d)) (Inl e, c))), c)
           | Inr ns \<Rightarrow> (TogglePending u ns, c))
      | None \<Rightarrow> (case dispatch rs rq c of (r, c') \<Rightarrow> (Done r, c')))"

text \<open>The second step of a suspended toggle: \<open>update_one\<close> and the response.\<close>

fun finish :: "task \<Rightarrow> collection \<Rightarrow> task \<times> collection" where
  "finish (TogglePending u ns) c =
     (case to_response (\<lambda>d. Ok (doc_json d)) (toggle_write u ns c) of (r, c') \<Rightarrow> (Done r, c'))"
| "finish t c = (t, c)"

section \<open>Steps and reachable states\<close>

inductive server_step :: "server \<Rightarrow> server \<Rightarrow> bool" where
  arrive: "server_step s (s\<lparr>tasks := tasks s @ [Waiting rq]\<rparr>)"
| start: "i < length (tasks s) \<Longrightarrow> tasks s ! i = Waiting rq \<Longrightarrow>
    begin_request rs rq (coll s) = (t, c') \<Longrightarrow>
    server_step s \<lparr>coll = c', tasks = (tasks s)[i := t]\<rparr>"
| resume: "i < length (tasks s) \<Longrightarrow> tasks s ! i = TogglePending u ns \<Longrightarrow>
    finish (TogglePending u ns) (coll s) = (t, c') \<Longrightarrow>
    server_step s \<lparr>coll = c', tasks = (tasks s)[i := t]\<rparr>"

definition init_server :: server where
  "init_server = \<lparr>coll = [], tasks = []\<rparr>"

inductive reachable :: "server \<Rightarrow> bool" where
  init: "reachable init_server"
| step: "reachable s \<Longrightarrow> server_step s s' \<Longrightarrow> reachable s'"


section \<open>Lemmas\<close>

lemma begin_request_wf:
  "wf_collection c \<Longrightarrow> begin_request rs rq c = (t, c') \<Longrightarrow> wf_collection c'"
  using dispatch_wf [of c rs rq]
  by (auto simp: begin_request_def split: option.splits sum.splits prod.splits)

lemma finish_wf: "wf_collection c \<Longrightarrow> finish t c = (t', c') \<Longrightarrow> wf_collection c'"
  using toggle_write_keeps_wf [of c]
  by (cases t) (auto simp: case_prod_beta prod_eq_iff)

lemma server_step_wf:
  "server_step s s' \<Longrightarrow> wf_collection (coll s) \<Longrightarrow> wf_collection (coll s')"
  by (induction rule: server_step.induct)
    (auto intro: begin_request_wf finish_wf simp del: finish.simps)

text \<open>
  C4: In every state the server can reach, under any interleaving of any requests at
  their \<open>await\<close>s, the collection holds only documents of the \<open>TodoItem\<close> shape
  with pairwise distinct identifiers.
\<close>

theorem reachable_wf: "reachable s \<Longrightarrow> wf_collection (coll s)"
proof (induction rule: reachable.induct)
  case init
  show ?case by (simp add: init_server_def)
next
  case (step s s')
  from step.hyps(2) step.IH show ?case by (rule server_step_wf)
qed

lemma reachable_arrive: "reachable s \<Longrightarrow> reachable (s\<lparr>tasks := tasks s @ [Waiting rq]\<rparr>)"
  by (blast intro: reachable.step server_step.arrive)

lemma reachable_start:
  "reachable s \<Longrightarrow> i < length (tasks s) \<Longrightarrow> tasks s ! i = Waiting rq \<Longrightarrow>
   begin_request rs rq (coll s) = (t, c') \<Longrightarrow> reachable \<lparr>coll = c', tasks = (tasks s)[i := t]\<rparr>"
  by (blast intro: reachable.step server_step.start)

lemma reachable_resume:
  "reachable s \<Longrightarrow> i < length (tasks s) \<Longrightarrow> tasks s ! i = TogglePending u ns \<Longrightarrow>
   finish (TogglePending u ns) (coll s) = (t, c') \<Longrightarrow>
   reachable \<lparr>coll = c', tasks = (tasks s)[i := t]\<rparr>"
  by (blast intro: reachable.step server_step.resume)

lemma toggle_target_todo_url [simp]:
  "toggle_target \<lparr>req_method = PATCH, req_path = todo_url u, req_body = b\<rparr> = Some u"
  by (simp add: toggle_target_def uuid_parse_uuid_str)

lemma begin_request_toggle:
  "begin_request rs \<lparr>req_method = PATCH, req_path = todo_url u, req_body = b\<rparr>
     [model_dump \<lparr>item_id = u, content = s, finished = f\<rparr>] =
   (TogglePending u (\<not> f), [model_dump \<lparr>item_id = u, content = s, finished = f\<rparr>])"
  by (simp add: begin_request_def toggle_read_def find_one_def matches_id_def doc_key_def
      model_dump_def py_falsy_doc_def)

lemma finish_toggle:
  "finish (TogglePending u ns) [model_dump \<lparr>item_id = u, content = s, finished = f\<rparr>] =
   (Done (Ok (JObj [(''_id'', JStr (uuid_str u)), (''finished'', JBool ns)])),
    [model_dump \<lparr>item_id = u, content = s, finished = ns\<rparr>])"
  by (simp add: toggle_write_def update_one_set_def matches_id_def doc_key_def model_dump_def
      to_response_def doc_json_def)

lemma begin_request_create:
  "begin_request rs \<lparr>req_method = POST, req_path = ''/todos'',
     req_body = Some (JObj [(''content'', JStr s)])\<rparr> [] =
   (Done (Ok (item_json (new_todo_item (rs 0) s False))), [model_dump (new_todo_item (rs 0) s False)])"
  by (simp add: begin_request_def toggle_target_def dispatch_def validate_create_def json_field_def
      create_todo_def insert_one_def to_response_def Let_def doc_key_def model_dump_def)

lemma reachable_created:
  "reachable \<lparr>coll = [model_dump (new_todo_item r s False)],
     tasks = [Done (Ok (item_json (new_todo_item r s False)))]\<rparr>"
proof -
  let ?post = "\<lparr>req_method = POST, req_path = ''/todos'', req_body = Some (JObj [(''content'', JStr s)])\<rparr>"
  have "reachable \<lparr>coll = [], tasks = [Waiting ?post]\<rparr>"
    using reachable_arrive [OF reachable.init, of ?post] by (simp add: init_server_def)
  from reachable_start [OF this, of 0 ?post "\<lambda>_. r"] show ?thesis
    by (simp add: begin_request_create)
qed


text \<open>
  C5: Lost update. Two toggle requests for an unfinished item, both suspended after
  their \<open>find_one\<close>, both answer \<open>finished: true\<close>, and the item is left finished:
  one flip is lost (run one after the other they leave it unfinished, C8).
\<close>

theorem concurrent_toggles_lose_update:
  "reachable \<lparr>coll = [model_dump (new_todo_item r s True)],
     tasks = [Done (Ok (item_json (new_todo_item r s False))),
              Done (Ok (JObj [(''_id'', JStr (uuid_str (uuid4 r))), (''finished'', JBool True)])),
              Done (Ok (JObj [(''_id'', JStr (uuid_str (uuid4 r))), (''finished'', JBool True)]))]\<rparr>"
proof -
  let ?p = "\<lparr>req_method = PATCH, req_path = todo_url (uuid4 r), req_body = None\<rparr>"
  let ?t = "\<lambda>f. \<lparr>item_id = uuid4 r, content = s, finished = f\<rparr>"
  let ?A = "Done (Ok (item_json (new_todo_item r s False)))"
  let ?B = "Done (Ok (JObj [(''_id'', JStr (uuid_str (uuid4 r))), (''finished'', JBool True)]))"
  have "reachable \<lparr>coll = [model_dump (?t False)], tasks = [?A, Waiting ?p, Waiting ?p]\<rparr>"
    using reachable_arrive [OF reachable_arrive [OF reachable_created [of r s]], of ?p ?p]
    by (simp add: new_todo_item_def)
  from reachable_start [OF this, of 1 ?p "\<lambda>_. r"]
  have "reachable \<lparr>coll = [model_dump (?t False)],
          tasks = [?A, TogglePending (uuid4 r) True, Waiting ?p]\<rparr>"
    by (simp add: begin_request_toggle)
  from reachable_start [OF this, of 2 ?p "\<lambda>_. r"]
  have "reachable \<lparr>coll = [model_dump (?t False)],
          tasks = [?A, TogglePending (uuid4 r) True, TogglePending (uuid4 r) True]\<rparr>"
    by (simp add: begin_request_toggle)
  from reachable_resume [OF this, of 1 "uuid4 r" True]
  have "reachable \<lparr>coll = [model_dump (?t True)],
          tasks = [?A, ?B, TogglePending (uuid4 r) True]\<rparr>"
    by (simp add: finish_toggle del: finish.simps)
  from reachable_resume [OF this, of 2 "uuid4 r" True]
  show ?thesis
    by (simp add: finish_toggle new_todo_item_def del: finish.simps)
qed


lemma begin_request_delete:
  "begin_request rs \<lparr>req_method = DELETE, req_path = todo_url u, req_body = b\<rparr>
     [model_dump \<lparr>item_id = u, content = s, finished = f\<rparr>] =
   (Done (Ok (JObj [(''message'', JStr ''Todo deleted successfully'')])), [])"
  by (simp add: begin_request_def toggle_target_def dispatch_delete delete_todo_def delete_one_def
      matches_id_def doc_key_def model_dump_def to_response_def doc_json_def)

lemma finish_toggle_gone:
  "finish (TogglePending u ns) [] =
   (Done (Ok (JObj [(''_id'', JStr (uuid_str u)), (''finished'', JBool ns)])), [])"
  by (simp add: toggle_write_def update_one_set_def to_response_def doc_json_def)

text \<open>
  C6: Write after delete. There is a reachable state in which a toggle is suspended
  between its \<open>find_one\<close> and its \<open>update_one\<close> while its item has already been
  deleted; resuming it, \<open>update_one\<close> matches nothing (its result is ignored, line 63)
  and the toggle still answers 200 with a new \<open>finished\<close> value for an item that no
  longer exists. Run one after the other, a toggle never reads an item and then finds
  it gone.
\<close>

theorem toggle_reports_deleted_item:
  "\<exists>s i. reachable s \<and> i < length (tasks s) \<and> tasks s ! i = TogglePending (uuid4 r) True \<and>
     todo_map (coll s) (uuid4 r) = None \<and>
     finish (TogglePending (uuid4 r) True) (coll s) =
       (Done (Ok (JObj [(''_id'', JStr (uuid_str (uuid4 r))), (''finished'', JBool True)])), coll s)"
proof -
  let ?p = "\<lparr>req_method = PATCH, req_path = todo_url (uuid4 r), req_body = None\<rparr>"
  let ?d = "\<lparr>req_method = DELETE, req_path = todo_url (uuid4 r), req_body = None\<rparr>"
  let ?t = "\<lparr>item_id = uuid4 r, content = s, finished = False\<rparr>"
  let ?A = "Done (Ok (item_json (new_todo_item r s False)))"
  let ?D = "Done (Ok (JObj [(''message'', JStr ''Todo deleted successfully'')]))"
  have "reachable \<lparr>coll = [model_dump ?t], tasks = [?A, Waiting ?p, Waiting ?d]\<rparr>"
    using reachable_arrive [OF reachable_arrive [OF reachable_created [of r s]], of ?p ?d]
    by (simp add: new_todo_item_def)
  from reachable_start [OF this, of 1 ?p "\<lambda>_. r"]
  have "reachable \<lparr>coll = [model_dump ?t], tasks = [?A, TogglePending (uuid4 r) True, Waiting ?d]\<rparr>"
    by (simp add: begin_request_toggle)
  from reachable_start [OF this, of 2 ?d "\<lambda>_. r"]
  have r: "reachable \<lparr>coll = [], tasks = [?A, TogglePending (uuid4 r) True, ?D]\<rparr>"
    by (simp add: begin_request_delete)
  show ?thesis
    using r finish_toggle_gone [of "uuid4 r" True]
    by (intro exI [of _ "\<lparr>coll = [], tasks = [?A, TogglePending (uuid4 r) True, ?D]\<rparr>"] exI [of _ 1])
      (simp del: finish.simps)
qed

theorem reachable_wf_witness:
  "reachable \<lparr>coll = [model_dump (new_todo_item 0 ''a'' False)],
     tasks = [Done (Ok (item_json (new_todo_item 0 ''a'' False)))]\<rparr> \<and>
   wf_collection [model_dump (new_todo_item 0 ''a'' False)]"
  using reachable_wf [OF reachable_created [of 0 "''a''"]] reachable_created [of 0 "''a''"]
  by simp

end
