(* ===== verification/Cors.thy ===== *)
theory Cors
  imports Api "HOL-Library.List_Lexorder" "HOL-Library.Char_ord"
begin

text \<open>
  The application object around the routes: the process start-up of \<^verbatim>\<open>main.py\<close>
  (lines 10--15: the connection string from the environment, the Motor client with the
  standard UUID representation, the collection \<open>todolist.todos\<close>) and the CORS
  middleware added on lines 20--26. The middleware is Starlette's \<open>CORSMiddleware\<close>,
  library code modelled from its source: its constructor turns the configuration into
  header tables, and each HTTP request is either a preflight it answers itself or a
  request it passes to the routes, adding headers to the response. Starlette stacks
  \<open>ServerErrorMiddleware\<close> outside the user middleware and \<open>ExceptionMiddleware\<close>
  inside it, so an exception that escapes the routes is answered 500 outside CORS.
\<close>

section \<open>Headers\<close>

text \<open>
  A header is a name and a value. The server delivers request header names in lower
  case; Starlette's \<open>Headers.get\<close> lower-cases the name it looks up and returns the
  first match.
\<close>

type_synonym header = "string \<times> string"

definition hdr_get :: "header list \<Rightarrow> string \<Rightarrow> string option" where
  "hdr_get hs k = map_of hs (map lower_char k)"

text \<open>
  \<open>MutableHeaders.__setitem__\<close>: the name is lower-cased; the first header of that name
  takes the value and later ones are deleted; a new name is appended.
\<close>

fun hdr_set_raw :: "string \<Rightarrow> string \<Rightarrow> header list \<Rightarrow> header list" where
  "hdr_set_raw k v [] = [(k, v)]"
| "hdr_set_raw k v ((k', v') # hs) =
     (if k' = k then (k, v) # filter (\<lambda>(k'', _). k'' \<noteq> k) hs
      else (k', v') # hdr_set_raw k v hs)"

definition hdr_set :: "string \<Rightarrow> string \<Rightarrow> header list \<Rightarrow> header list" where
  "hdr_set k v hs = hdr_set_raw (map lower_char k) v hs"

text \<open>\<open>MutableHeaders.add_vary_header\<close>: appends to an existing \<open>vary\<close> value.\<close>

definition add_vary_header :: "string \<Rightarrow> header list \<Rightarrow> header list" where
  "add_vary_header vary hs =
     (case hdr_get hs ''vary'' of
        None \<Rightarrow> hdr_set ''vary'' vary hs
      | Some e \<Rightarrow> hdr_set ''vary'' (e @ '', '' @ vary) hs)"

text \<open>\<open>", ".join(xs)\<close>.\<close>

fun join_comma :: "string list \<Rightarrow> string" where
  "join_comma [] = []"
| "join_comma [x] = x"
| "join_comma (x # xs) = x @ '', '' @ join_comma xs"

text \<open>\<open>str(n)\<close> of a natural number.\<close>

fun dec_string :: "nat \<Rightarrow> string" where
  "dec_string n =
     (if n < 10 then [char_of (48 + n)] else dec_string (n div 10) @ [char_of (48 + n mod 10)])"

text \<open>\<open>s.split(",")\<close> and \<open>s.strip()\<close> (ASCII white space).\<close>

fun split_on :: "char \<Rightarrow> string \<Rightarrow> string list" where
  "split_on c [] = [[]]"
| "split_on c (x # xs) =
     (let ws = split_on c xs in if x = c then [] # ws else (x # hd ws) # tl ws)"

definition strip :: "string \<Rightarrow> string" where
  "strip s =
     (let sp = (\<lambda>ch. (of_char ch :: nat) \<in> {9, 10, 11, 12, 13, 32})
      in rev (dropWhile sp (rev (dropWhile sp s))))"

section \<open>Requests and replies on the wire\<close>

text \<open>A request as the middleware sees it: the routed request and its headers.\<close>

record http_request = request +
  req_headers :: "header list"

text \<open>
  What is sent back: a response of the routes, or a plain-text response of a middleware;
  its status and the headers the middlewares set (the content headers of the body are
  not modelled). Header names are lower case, as Starlette stores them.
\<close>

datatype wire_body = Routed response | PlainText string

record http_reply =
  reply_status :: nat
  reply_body :: wire_body
  reply_headers :: "header list"

text \<open>\<open>PlainTextResponse(text, status_code=n, headers=h)\<close>: the names are lower-cased.\<close>

definition plain_text_response :: "nat \<Rightarrow> string \<Rightarrow> header list \<Rightarrow> http_reply" where
  "plain_text_response n t hs =
     \<lparr>reply_status = n, reply_body = PlainText t,
      reply_headers = map (\<lambda>(k, v). (map lower_char k, v)) hs\<rparr>"

section \<open>The CORS middleware\<close>

text \<open>
  The constructor's parameters; \<open>main.py\<close> sets the first four, \<open>expose_headers\<close>
  and \<open>max_age\<close> keep their defaults (the origin regex, also unset, is not modelled).
\<close>

record cors_config =
  allow_origins :: "string list"
  allow_methods :: "string list"
  allow_headers :: "string list"
  allow_credentials :: bool
  expose_headers :: "string list"
  max_age :: nat

definition app_cors :: cors_config where
  "app_cors =
     \<lparr>allow_origins = [''*''], allow_methods = [''*''], allow_headers = [''*''],
      allow_credentials = True, expose_headers = [], max_age = 600\<rparr>"

definition all_methods :: "string list" where
  "all_methods = [''DELETE'', ''GET'', ''HEAD'', ''OPTIONS'', ''PATCH'', ''POST'', ''PUT'']"

definition safelisted_headers :: "string list" where
  "safelisted_headers = [''Accept'', ''Accept-Language'', ''Content-Language'', ''Content-Type'']"

text \<open>The attributes \<open>CORSMiddleware.__init__\<close> computes.\<close>

record cors_middleware =
  mw_allow_origins :: "string list"
  mw_allow_methods :: "string list"
  mw_allow_headers :: "string list"
  mw_allow_all_origins :: bool
  mw_allow_all_headers :: bool
  mw_explicit_origin :: bool
  mw_simple_headers :: "header list"
  mw_preflight_headers :: "header list"

definition cors_init :: "cors_config \<Rightarrow> cors_middleware" where
  "cors_init cfg =
     (let methods = (if ''*'' \<in> set (allow_methods cfg) then all_methods else allow_methods cfg);
          all_origins = (''*'' \<in> set (allow_origins cfg));
          all_headers = (''*'' \<in> set (allow_headers cfg));
          explicit = (\<not> all_origins \<or> allow_credentials cfg);
          hdrs = sort (remdups (safelisted_headers @ allow_headers cfg));
          simple =
            (if all_origins then [(''Access-Control-Allow-Origin'', ''*'')] else []) @
            (if allow_credentials cfg then [(''Access-Control-Allow-Credentials'', ''true'')] else []) @
            (if expose_headers cfg \<noteq> []
             then [(''Access-Control-Expose-Headers'', join_comma (expose_headers cfg))] else []);
          preflight =
            (if explicit then [(''Vary'', ''Origin'')] else [(''Access-Control-Allow-Origin'', ''*'')]) @
            [(''Access-Control-Allow-Methods'', join_comma methods),
             (''Access-Control-Max-Age'', dec_string (max_age cfg))] @
            (if hdrs \<noteq> [] \<and> \<not> all_headers
             then [(''Access-Control-Allow-Headers'', join_comma hdrs)] else []) @
            (if allow_credentials cfg then [(''Access-Control-Allow-Credentials'', ''true'')] else [])
      in \<lparr>mw_allow_origins = allow_origins cfg, mw_allow_methods = methods,
          mw_allow_headers = map (map lower_char) hdrs, mw_allow_all_origins = all_origins,
          mw_allow_all_headers = all_headers, mw_explicit_origin = explicit,
          mw_simple_headers = simple, mw_preflight_headers = preflight\<rparr>)"

definition is_allowed_origin :: "cors_middleware \<Rightarrow> string \<Rightarrow> bool" where
  "is_allowed_origin mw origin = (mw_allow_all_origins mw \<or> origin \<in> set (mw_allow_origins mw))"

text \<open>
  \<open>preflight_response\<close>: the origin, the requested method and the requested headers are
  checked in that order; any failure makes a 400 naming the failures.
\<close>

definition preflight_response ::
  "cors_middleware \<Rightarrow> string \<Rightarrow> string \<Rightarrow> string option \<Rightarrow> http_reply" where
  "preflight_response mw origin meth reqh =
     (let ok_origin = is_allowed_origin mw origin;
          h1 = (if ok_origin \<and> mw_explicit_origin mw
                then dict_set ''Access-Control-Allow-Origin'' origin (mw_preflight_headers mw)
                else mw_preflight_headers mw);
          f1 = (if ok_origin then [] else [''origin'']);
          f2 = (if meth \<in> set (mw_allow_methods mw) then [] else [''method'']);
          h2 = (case reqh of
                  Some rh \<Rightarrow> if mw_allow_all_headers mw
                             then dict_set ''Access-Control-Allow-Headers'' rh h1 else h1
                | None \<Rightarrow> h1);
          f3 = (case reqh of
                  Some rh \<Rightarrow>
                    if \<not> mw_allow_all_headers mw \<and>
                       \<not> list_all (\<lambda>h. strip h \<in> set (mw_allow_headers mw))
                           (split_on CHR '','' (map lower_char rh))
                    then [''headers''] else []
                | None \<Rightarrow> []);
          failures = f1 @ f2 @ f3
      in if failures = [] then plain_text_response 200 ''OK'' h2
         else plain_text_response 400 (''Disallowed CORS '' @ join_comma failures) h2)"

text \<open>\<open>allow_explicit_origin\<close>: the request's origin instead of \<open>*\<close>, and \<open>Vary: Origin\<close>.\<close>

definition allow_explicit_origin :: "string \<Rightarrow> header list \<Rightarrow> header list" where
  "allow_explicit_origin origin hs =
     add_vary_header ''Origin'' (hdr_set ''Access-Control-Allow-Origin'' origin hs)"

text \<open>
  The \<open>send\<close> wrapper of \<open>simple_response\<close>, on the start of a response: the simple
  headers, then the explicit origin for a request with a cookie when all origins are
  allowed, or for an allowed origin otherwise.
\<close>

definition cors_send :: "cors_middleware \<Rightarrow> string \<Rightarrow> bool \<Rightarrow> http_reply \<Rightarrow> http_reply" where
  "cors_send mw origin has_cookie r =
     (let h0 = fold (\<lambda>(k, v). hdr_set k v) (mw_simple_headers mw) (reply_headers r);
          h1 = (if mw_allow_all_origins mw \<and> has_cookie then allow_explicit_origin origin h0
                else if \<not> mw_allow_all_origins mw \<and> is_allowed_origin mw origin
                then allow_explicit_origin origin h0
                else h0)
      in r\<lparr>reply_headers := h1\<rparr>)"

section \<open>The middleware stack\<close>

text \<open>
  The routes inside \<open>ExceptionMiddleware\<close>: \<open>dispatch\<close>, where \<open>ServerError\<close> stands
  for an exception that nothing inside handles (a storage error, a response that fails
  its \<open>response_model\<close>); it escapes as \<open>None\<close>.
\<close>

definition inner_app :: "(nat \<Rightarrow> 128 word) \<Rightarrow> request \<Rightarrow> collection \<Rightarrow> http_reply option \<times> collection" where
  "inner_app rs rq c =
     (case dispatch rs rq c of
        (ServerError, c') \<Rightarrow> (None, c')
      | (r, c') \<Rightarrow> (Some \<lparr>reply_status = status_code r, reply_body = Routed r, reply_headers = []\<rparr>, c'))"

text \<open>
  \<open>CORSMiddleware.__call__\<close>: without an \<open>Origin\<close> header the request goes through
  untouched; an \<open>OPTIONS\<close> request with \<open>Access-Control-Request-Method\<close> is a preflight;
  anything else is a simple request.
\<close>

definition cors_call ::
  "cors_middleware \<Rightarrow> (request \<Rightarrow> collection \<Rightarrow> http_reply option \<times> collection) \<Rightarrow>
   http_request \<Rightarrow> collection \<Rightarrow> http_reply option \<times> collection" where
  "cors_call mw app rq c =
     (let hs = req_headers rq in
      case hdr_get hs ''origin'' of
        None \<Rightarrow> app (request.truncate rq) c
      | Some origin \<Rightarrow>
          (case (req_method rq = OtherMethod ''OPTIONS'', hdr_get hs ''access-control-request-method'') of
             (True, Some meth) \<Rightarrow>
               (Some (preflight_response mw origin meth (hdr_get hs ''access-control-request-headers'')), c)
           | _ \<Rightarrow>
               (case app (request.truncate rq) c of
                  (None, c') \<Rightarrow> (None, c')
                | (Some r, c') \<Rightarrow>
                    (Some (cors_send mw origin (hdr_get hs ''cookie'' \<noteq> None) r), c'))))"

text \<open>\<open>ServerErrorMiddleware\<close>, outermost: an escaped exception becomes a plain 500.\<close>

definition server_error_middleware :: "http_reply option \<times> collection \<Rightarrow> http_reply \<times> collection" where
  "server_error_middleware x =
     (case x of
        (None, c') \<Rightarrow> (plain_text_response 500 ''Internal Server Error'' [], c')
      | (Some r, c') \<Rightarrow> (r, c'))"

definition serve :: "cors_middleware \<Rightarrow> (nat \<Rightarrow> 128 word) \<Rightarrow> http_request \<Rightarrow> collection \<Rightarrow> http_reply \<times> collection" where
  "serve mw rs rq c = server_error_middleware (cors_call mw (inner_app rs) rq c)"

section \<open>Start-up\<close>

text \<open>
  Module import: \<open>os.environ["MONGODB_CONNECTION_STRING"]\<close> raises \<open>KeyError\<close> when the
  variable is unset; the client constructor parses the URI and raises \<open>InvalidURI\<close>
  unless it has the scheme \<open>mongodb://\<close> or \<open>mongodb+srv://\<close> (its further checks of
  hosts and options are not modelled); it does not connect. Then the database, the
  collection and the application with its middleware are created.
\<close>

datatype startup_error = KeyError string | InvalidURI

record app_config =
  mongodb_uri :: string
  uuid_representation :: string
  db_name :: string
  collection_name :: string
  middleware :: cors_middleware

definition startup :: "(string \<rightharpoonup> string) \<Rightarrow> startup_error + app_config" where
  "startup env =
     (case env ''MONGODB_CONNECTION_STRING'' of
        None \<Rightarrow> Inl (KeyError ''MONGODB_CONNECTION_STRING'')
      | Some s \<Rightarrow>
          if take 10 s = ''mongodb://'' \<or> take 14 s = ''mongodb+srv://''
          then Inr \<lparr>mongodb_uri = s, uuid_representation = ''standard'', db_name = ''todolist'',
                    collection_name = ''todos'', middleware = cors_init app_cors\<rparr>
          else Inl InvalidURI)"

text \<open>A preflight, as \<open>__call__\<close> recognises it.\<close>

definition is_preflight :: "http_request \<Rightarrow> bool" where
  "is_preflight rq =
     (req_method rq = OtherMethod ''OPTIONS'' \<and> hdr_get (req_headers rq) ''origin'' \<noteq> None \<and>
      hdr_get (req_headers rq) ''access-control-request-method'' \<noteq> None)"

section \<open>Lemmas\<close>

lemma cors_init_app_cors:
  "cors_init app_cors =
     \<lparr>mw_allow_origins = [''*''], mw_allow_methods = all_methods,
      mw_allow_headers = [''*'', ''accept'', ''accept-language'', ''content-language'', ''content-type''],
      mw_allow_all_origins = True, mw_allow_all_headers = True, mw_explicit_origin = True,
      mw_simple_headers = [(''Access-Control-Allow-Origin'', ''*''), (''Access-Control-Allow-Credentials'', ''true'')],
      mw_preflight_headers =
        [(''Vary'', ''Origin''),
         (''Access-Control-Allow-Methods'', ''DELETE, GET, HEAD, OPTIONS, PATCH, POST, PUT''),
         (''Access-Control-Max-Age'', ''600''), (''Access-Control-Allow-Credentials'', ''true'')]\<rparr>"
  by code_simp

text \<open>Lower-casing a literal header name, character by character.\<close>

lemmas lower_eval = lower_char_def char_of_def bit_0

lemma inner_app_eq:
  "inner_app rs rq c =
     (if fst (dispatch rs rq c) = ServerError then None else Some \<lparr>reply_status = status_code (fst (dispatch rs rq c)),
       reply_body = Routed (fst (dispatch rs rq c)), reply_headers = []\<rparr>,
      snd (dispatch rs rq c))"
  by (simp add: inner_app_def split: prod.splits response.splits)

lemma reply_status_cors_send [simp]: "reply_status (cors_send mw origin k r) = reply_status r"
  by (simp add: cors_send_def Let_def)

lemma reply_body_cors_send [simp]: "reply_body (cors_send mw origin k r) = reply_body r"
  by (simp add: cors_send_def Let_def)

lemma serve_no_origin:
  "hdr_get (req_headers rq) ''origin'' = None \<Longrightarrow>
   serve mw rs rq c = server_error_middleware (inner_app rs (request.truncate rq) c)"
  by (simp add: serve_def cors_call_def)

lemma serve_simple:
  "hdr_get (req_headers rq) ''origin'' = Some origin \<Longrightarrow> \<not> is_preflight rq \<Longrightarrow>
   serve mw rs rq c =
     server_error_middleware
       (case inner_app rs (request.truncate rq) c of
          (None, c') \<Rightarrow> (None, c')
        | (Some r, c') \<Rightarrow> (Some (cors_send mw origin (hdr_get (req_headers rq) ''cookie'' \<noteq> None) r), c'))"
  by (cases "req_method rq = OtherMethod ''OPTIONS''")
    (auto simp: serve_def cors_call_def is_preflight_def Let_def split: option.splits)

lemma serve_preflight:
  "req_method rq = OtherMethod ''OPTIONS'' \<Longrightarrow> hdr_get (req_headers rq) ''origin'' = Some origin \<Longrightarrow>
   hdr_get (req_headers rq) ''access-control-request-method'' = Some meth \<Longrightarrow>
   serve mw rs rq c =
     (preflight_response mw origin meth (hdr_get (req_headers rq) ''access-control-request-headers''), c)"
  by (simp add: serve_def cors_call_def server_error_middleware_def)

text \<open>
  The middleware stack is transparent for every request but a preflight: the status sent
  is the router's, and the collection is what the handler left.
\<close>

lemma serve_refines_dispatch:
  assumes "\<not> is_preflight rq"
  shows "reply_status (fst (serve mw rs rq c)) = status_code (fst (dispatch rs (request.truncate rq) c)) \<and>
    snd (serve mw rs rq c) = snd (dispatch rs (request.truncate rq) c)"
proof (cases "hdr_get (req_headers rq) ''origin''")
  case None
  then show ?thesis
    by (simp add: serve_no_origin inner_app_eq server_error_middleware_def plain_text_response_def
       )
next
  case (Some origin)
  with assms show ?thesis
    by (simp add: serve_simple inner_app_eq server_error_middleware_def plain_text_response_def
       )
qed

text \<open>
  C18: With the configuration of lines 20--26 a preflight from any origin for any of the
  standard methods is answered 200 by the middleware itself, echoing the origin with
  credentials allowed (and echoing the requested headers), and it reaches no storage.
\<close>

theorem preflight_any_origin:
  assumes "req_method rq = OtherMethod ''OPTIONS''"
    and "hdr_get (req_headers rq) ''origin'' = Some origin"
    and "hdr_get (req_headers rq) ''access-control-request-method'' = Some meth"
    and "meth \<in> set all_methods"
  shows "serve (cors_init app_cors) rs rq c =
    (\<lparr>reply_status = 200, reply_body = PlainText ''OK'',
      reply_headers =
        [(''vary'', ''Origin''),
         (''access-control-allow-methods'', ''DELETE, GET, HEAD, OPTIONS, PATCH, POST, PUT''),
         (''access-control-max-age'', ''600''), (''access-control-allow-credentials'', ''true''),
         (''access-control-allow-origin'', origin)] @
        (case hdr_get (req_headers rq) ''access-control-request-headers'' of
           None \<Rightarrow> []
         | Some rh \<Rightarrow> [(''access-control-allow-headers'', rh)])\<rparr>, c)"
  using assms
  by (simp add: serve_preflight preflight_response_def cors_init_app_cors is_allowed_origin_def
      plain_text_response_def hdr_get_def lower_eval split: option.splits)

theorem preflight_any_origin_witness:
  "req_method \<lparr>req_method = OtherMethod ''OPTIONS'', req_path = ''/todos'', req_body = None,
      req_headers = [(''origin'', ''http://evil.example''), (''access-control-request-method'', ''PATCH'')]\<rparr>
     = OtherMethod ''OPTIONS'' \<and>
   ''PATCH'' \<in> set all_methods \<and>
   serve (cors_init app_cors) (\<lambda>_. 0) \<lparr>req_method = OtherMethod ''OPTIONS'', req_path = ''/todos'',
      req_body = None,
      req_headers = [(''origin'', ''http://evil.example''), (''access-control-request-method'', ''PATCH'')]\<rparr> [] =
    (\<lparr>reply_status = 200, reply_body = PlainText ''OK'',
      reply_headers =
        [(''vary'', ''Origin''),
         (''access-control-allow-methods'', ''DELETE, GET, HEAD, OPTIONS, PATCH, POST, PUT''),
         (''access-control-max-age'', ''600''), (''access-control-allow-credentials'', ''true''),
         (''access-control-allow-origin'', ''http://evil.example'')]\<rparr>, [])"
  using preflight_any_origin [of "\<lparr>req_method = OtherMethod ''OPTIONS'', req_path = ''/todos'',
      req_body = None,
      req_headers = [(''origin'', ''http://evil.example''), (''access-control-request-method'', ''PATCH'')]\<rparr>"
      "''http://evil.example''" "''PATCH''" "\<lambda>_. 0" "[]"]
  by (simp add: hdr_get_def lower_eval all_methods_def)

text \<open>
  C19: A preflight for a method outside Starlette's fixed list (a WebDAV or extension
  method, or a lower-case \<open>patch\<close> as browsers send it) is refused with 400
  \<open>Disallowed CORS method\<close>, although \<open>allow_methods=["*"]\<close>; storage is not reached.
\<close>

theorem preflight_unknown_method:
  assumes "req_method rq = OtherMethod ''OPTIONS''"
    and "hdr_get (req_headers rq) ''origin'' = Some origin"
    and "hdr_get (req_headers rq) ''access-control-request-method'' = Some meth"
    and "meth \<notin> set all_methods"
  shows "reply_status (fst (serve (cors_init app_cors) rs rq c)) = 400 \<and>
    reply_body (fst (serve (cors_init app_cors) rs rq c)) = PlainText ''Disallowed CORS method'' \<and>
    snd (serve (cors_init app_cors) rs rq c) = c"
  using assms
  by (simp add: serve_preflight preflight_response_def cors_init_app_cors is_allowed_origin_def
      plain_text_response_def hdr_get_def lower_eval Let_def split: option.splits)

theorem preflight_unknown_method_witness:
  "req_method \<lparr>req_method = OtherMethod ''OPTIONS'', req_path = ''/todos/x'', req_body = None,
      req_headers = [(''origin'', ''http://a.example''), (''access-control-request-method'', ''patch'')]\<rparr>
     = OtherMethod ''OPTIONS'' \<and>
   ''patch'' \<notin> set all_methods \<and>
   reply_status (fst (serve (cors_init app_cors) (\<lambda>_. 0) \<lparr>req_method = OtherMethod ''OPTIONS'',
      req_path = ''/todos/x'', req_body = None,
      req_headers = [(''origin'', ''http://a.example''), (''access-control-request-method'', ''patch'')]\<rparr>
      [])) = 400"
  using preflight_unknown_method [of "\<lparr>req_method = OtherMethod ''OPTIONS'', req_path = ''/todos/x'',
      req_body = None,
      req_headers = [(''origin'', ''http://a.example''), (''access-control-request-method'', ''patch'')]\<rparr>"
      "''http://a.example''" "''patch''" "\<lambda>_. 0" "[]"]
  by (simp add: hdr_get_def lower_eval all_methods_def)

text \<open>
  C20: On every other request with an \<open>Origin\<close> whose response the routes produce, the
  middleware sends \<open>Access-Control-Allow-Origin: *\<close> with credentials allowed, and for a
  request that carries a cookie it echoes the requesting origin instead, with
  \<open>Vary: Origin\<close>: any site may read the responses to a browser's cookie-bearing requests.
\<close>

theorem simple_response_headers:
  assumes "hdr_get (req_headers rq) ''origin'' = Some origin"
    and "\<not> is_preflight rq"
    and "fst (dispatch rs (request.truncate rq) c) \<noteq> ServerError"
  shows "reply_headers (fst (serve (cors_init app_cors) rs rq c)) =
    (if hdr_get (req_headers rq) ''cookie'' = None
     then [(''access-control-allow-origin'', ''*''), (''access-control-allow-credentials'', ''true'')]
     else [(''access-control-allow-origin'', origin), (''access-control-allow-credentials'', ''true''),
           (''vary'', ''Origin'')])"
  using assms
  by (simp add: serve_simple inner_app_eq cors_send_def cors_init_app_cors
      server_error_middleware_def allow_explicit_origin_def add_vary_header_def hdr_set_def
      hdr_get_def lower_eval)

theorem simple_response_headers_witness:
  "hdr_get [(''origin'', ''http://evil.example''), (''cookie'', ''s=1'')] ''origin'' = Some ''http://evil.example'' \<and>
   \<not> is_preflight \<lparr>req_method = GET, req_path = ''/todos'', req_body = None,
      req_headers = [(''origin'', ''http://evil.example''), (''cookie'', ''s=1'')]\<rparr> \<and>
   reply_headers (fst (serve (cors_init app_cors) (\<lambda>_. 0) \<lparr>req_method = GET, req_path = ''/todos'',
      req_body = None, req_headers = [(''origin'', ''http://evil.example''), (''cookie'', ''s=1'')]\<rparr> [])) =
   [(''access-control-allow-origin'', ''http://evil.example''), (''access-control-allow-credentials'', ''true''),
    (''vary'', ''Origin'')]"
  using simple_response_headers [of "\<lparr>req_method = GET, req_path = ''/todos'', req_body = None,
      req_headers = [(''origin'', ''http://evil.example''), (''cookie'', ''s=1'')]\<rparr>"
      "''http://evil.example''" "\<lambda>_. 0" "[]"]
  by (simp add: is_preflight_def hdr_get_def lower_eval request.truncate_def dispatch_def read_todos_def
      to_response_def list_response_def validate_items_def find_to_list_def)

lemma preflight_response_status: "reply_status (preflight_response mw origin meth reqh) \<in> {200, 400}"
  by (simp add: preflight_response_def Let_def plain_text_response_def)

text \<open>
  C16: Every reply of the application, with the configuration of lines 20--26, has status
  200, 307, 400, 404, 405, 422 or 500: the handlers raise no \<open>HTTPException\<close> other than
  404 (lines 54 and 61), validation answers 422, an uncaught error 500, the router 307,
  404 or 405, and the CORS middleware answers a preflight itself with 200 or 400.
\<close>

theorem app_status:
  "reply_status (fst (serve (cors_init app_cors) rs rq c)) \<in> {200, 307, 400, 404, 405, 422, 500}"
proof (cases "is_preflight rq")
  case True
  then obtain origin meth where "req_method rq = OtherMethod ''OPTIONS''"
    and "hdr_get (req_headers rq) ''origin'' = Some origin"
    and "hdr_get (req_headers rq) ''access-control-request-method'' = Some meth"
    by (auto simp: is_preflight_def)
  then show ?thesis
    using preflight_response_status [of "cors_init app_cors" origin meth
        "hdr_get (req_headers rq) ''access-control-request-headers''"]
    by (auto simp: serve_preflight)
next
  case False
  then show ?thesis
    using serve_refines_dispatch [OF False, of "cors_init app_cors" rs c]
      dispatch_status [of rs "request.truncate rq" c]
    by auto
qed

end
