(* ===== verification/Spec2Isabelle.thy ===== *)
theory Spec2Isabelle
  imports Concurrency Cors
begin

text \<open>
  \<^bold>\<open>A verification model of the todo-list backend\<close> (\<^verbatim>\<open>src/backend/src/mysite/main.py\<close>).

  \<^bold>\<open>The program.\<close> One FastAPI application with four routes over one MongoDB
  collection \<open>todolist.todos\<close>, reached through a Motor client opened at start-up
  (lines 10--15) with \<open>uuidRepresentation="standard"\<close>, behind a CORS middleware (lines
  20--26). \<open>POST /todos\<close> (\<open>create_todo\<close>, lines 38--42) validates a
  \<open>TodoItemCreate\<close>, builds a \<open>TodoItem\<close> with a \<open>uuid4\<close> identifier and
  \<open>finished=False\<close>, inserts \<open>model_dump(by_alias=True)\<close> and returns the item.
  \<open>GET /todos\<close> (\<open>read_todos\<close>, 45--47) returns every document, validated against
  \<open>list[TodoItem]\<close>. \<open>DELETE /todos/{id}\<close> (\<open>delete_todo\<close>, 50--55) deletes one
  document and answers 404 when none was deleted. \<open>PATCH /todos/{id}\<close>
  (\<open>toggle_finished\<close>, 57--64) reads the document, answers 404 when it is missing, and
  otherwise writes the negation of its \<open>finished\<close> field with \<open>$set\<close>, ignoring the
  result of the write. The collection is the only state shared between requests; each
  handler is a coroutine that suspends at its \<open>await\<close>s, so requests interleave there.

  \<^bold>\<open>Theories.\<close>
  \<^item> \<open>Prelude\<close>: the identifier type \<open>uuid = 128 word\<close>, the named collections
    \<open>store_simps\<close> and \<open>wf_simps\<close>, generic list lemmas, and \<open>base_digits\<close> (the
    base-\<open>b\<close> digits of a number, read back by Horner's rule) for the hex text of an
    identifier.
  \<^item> \<open>Bson\<close>: BSON values (\<open>bson\<close>), documents as ordered dictionaries, and the Python
    operations the handlers apply: \<open>dict_get\<close> (\<open>d.get(k, default)\<close>, line 62),
    \<open>py_truthy\<close> and \<open>py_falsy_doc\<close> (\<open>not\<close>, lines 60 and 62), \<open>dict_set\<close> (the
    \<open>$set\<close> of line 63, and Python's \<open>d[k] = v\<close>).
  \<^item> \<open>Uuid\<close>: \<open>uuid4\<close> as the bit manipulation of Python's constructor applied to a
    random draw, \<open>uuid_str\<close> (\<open>str(UUID)\<close>) and \<open>uuid_parse\<close> (the string forms a
    \<open>UUID\<close> field accepts). Lemmas: \<open>uuid_parse (uuid_str u) = Some u\<close>, and the
    version and variant fields of every \<open>uuid4\<close> value, proved bit by bit on the word.
  \<^item> \<open>Models\<close>: JSON values; the records \<open>todo_item\<close> and \<open>todo_item_create\<close>
    (lines 29--36); \<open>new_todo_item\<close> (the default factory), \<open>model_dump\<close>, the
    lax-mode validations \<open>validate_create\<close> (request body) and \<open>validate_item\<close>
    (response model), and the serialisations \<open>item_json\<close> and \<open>doc_json\<close>. The
    abstraction \<open>doc_entry\<close> recognises a stored item.
  \<^item> \<open>Collection\<close>: the collection as the list of its documents in natural order, and the
    Motor operations \<open>insert_one\<close> (refusing a duplicate \<open>_id\<close>), \<open>find_to_list\<close>,
    \<open>find_one\<close>, \<open>delete_one\<close>, \<open>update_one_set\<close>. The invariant \<open>wf_collection\<close>
    (every document has the \<open>TodoItem\<close> shape, identifiers are distinct) and the
    abstraction \<open>todo_map\<close> to a map from identifier to (content, finished); one lemma
    per operation says what it does to \<open>todo_map\<close> and that it keeps the invariant.
  \<^item> \<open>Handlers\<close>: the four handlers as functions of the collection returning an
    \<open>outcome\<close> (an \<open>http_error\<close> or the returned value, with the new collection); the
    toggle also as its two storage steps \<open>toggle_read\<close> and \<open>toggle_write\<close>; the
    abstract specification \<open>abs_create\<close>, \<open>abs_delete\<close>, \<open>abs_toggle\<close> on maps and the
    refinement theorems (C1--C3): on a well-formed collection each handler is its
    abstract operation seen through \<open>todo_map\<close>. Every created item carries a version-4
    identifier from the default factory (C12).
  \<^item> \<open>Api\<close>: requests and responses, the router \<open>dispatch\<close> (route order, path
    parameter decoding, body and response validation, \<open>HTTPException\<close> to status, storage
    errors to 500) and, for paths the program's routes do not match, \<open>other_routes\<close>:
    the documentation routes \<open>FastAPI()\<close> adds (\<open>docs_routes\<close>, line 18), Starlette's
    \<open>redirect_slashes\<close> (\<open>slash_redirect\<close>) and 404. Lemmas: the behaviours the
    specification's section 8 lists, stated on requests (C7--C11, C15); the toggle of a
    document without \<open>finished\<close> (C13); the validation of the ignored \<open>finished\<close> member
    of a create (C14); a listing over a document the program did not write fails as a
    whole (C17); a route path with a trailing slash is redirected, not handled (C21); the
    four documentation routes (C22).
  \<^item> \<open>Concurrency\<close>: the server as the collection and the requests in progress
    (\<open>task\<close>s); \<open>server_step\<close> lets a request arrive, take its first storage step
    (\<open>begin_request\<close>) or, for a suspended toggle, its write (\<open>finish\<close>); \<open>reachable\<close>
    states from the empty server. Lemmas: the invariant holds in every reachable state
    (C4, by rule induction); the toggle's read-then-write races as reachable states: the
    lost update (C5) and the write after a delete that still answers 200 (C6).
  \<^item> \<open>Cors\<close>: the application object. \<open>startup\<close> is the module start-up (lines
    10--15); \<open>app_cors\<close> is the configuration of lines 20--26 and \<open>cors_init\<close>,
    \<open>preflight_response\<close>, \<open>cors_send\<close> and \<open>cors_call\<close> are Starlette's
    \<open>CORSMiddleware\<close> (constructor, preflight, send wrapper, call) over requests with
    headers (\<open>http_request\<close>, an extension of \<open>request\<close>); \<open>serve\<close> is Starlette's
    stack \<open>ServerErrorMiddleware\<close> around \<open>CORSMiddleware\<close> around the routes
    (\<open>dispatch\<close> inside \<open>ExceptionMiddleware\<close>). Lemmas, with the program's
    configuration: the statuses the application can answer (C16); a preflight from any
    origin is granted for the standard methods (C18) and refused for any other method
    (C19); the CORS headers of a routed response, echoing the origin of a cookie-bearing
    request (C20).

  \<^bold>\<open>Randomness and bounds.\<close> \<open>uuid4\<close> takes its 128 random bits as an argument, and
  \<open>dispatch\<close> and \<open>begin_request\<close> take a supply \<open>rs\<close> of such draws; the step
  relation leaves the draw free, so every outcome of the random generator is covered.
  No operation needs fuel: every operation is structural recursion over the collection,
  a document or a string. The integers that can overflow are the identifiers
  (\<open>128 word\<close>); the digit lemmas bound their hex value by \<open>16 ^ 32 = 2 ^ 128\<close>.

  \<^bold>\<open>Plan of the development.\<close> Modelled, in order of importance: the handlers and
  their refinement (Handlers), the storage operations and invariant (Collection), the
  interleaving of requests and the toggle's races (Concurrency), the HTTP layer (Api),
  the data model (Models), identifiers (Uuid), and start-up with the CORS middleware
  (Cors). Every line of \<^verbatim>\<open>main.py\<close> but its imports is covered by a definition;
  what remains outside the model is listed below.

  \<^bold>\<open>Not modelled.\<close> The BSON binary form of identifiers chosen by
  \<open>uuidRepresentation="standard"\<close>: documents hold the \<open>UUID\<close> value itself, which is
  what the driver hands back. The URI parser's checks beyond the scheme (hosts, options,
  the DNS lookup of \<open>mongodb+srv\<close>), and storage failures other than a duplicate key
  (network errors); the content headers of response bodies, the CORS origin regex (unset
  here) and non-HTTP (websocket, lifespan) scopes; the error list of a 422 body, the
  contents of the documentation pages and the host and query string of a redirect's
  \<open>Location\<close>. Handlers read the collection through \<open>find_to_list\<close>, one atomic
  step: the cursor's batches and a listing interleaved with writes between them are not
  modelled. A document without \<open>_id\<close> is appended without the \<open>ObjectId\<close> the server
  would add; the program never inserts one, and no property depends on it.
\<close>

end
